theory Spec2Isabelle
  imports Complex_Main "HOL-Library.Word" "HOL-Library.Char_ord" "HOL-Library.List_Lexorder"
begin

unbundle bit_operations_syntax

section \<open>Strings and the digest used by the cache layer\<close>

text \<open>
  Python \<open>str\<close> values are modelled as \<^typ>\<open>string\<close>: a list of characters whose
  code points lie below 256. \<open>len\<close> is \<^const>\<open>length\<close>; \<open>str.encode()\<close> is UTF-8.
\<close>

definition utf8_encode :: "string \<Rightarrow> 8 word list" where
  "utf8_encode s =
     concat (map (\<lambda>c. let n = of_char c :: nat in
                        if n < 128 then [of_nat n]
                        else [of_nat (192 + n div 64), of_nat (128 + n mod 64)]) s)"

text \<open>\<open>hashlib.md5(data).hexdigest()\<close>, after RFC 1321.\<close>

definition md5_shifts :: "nat list" where
  "md5_shifts =
     [7, 12, 17, 22, 7, 12, 17, 22, 7, 12, 17, 22, 7, 12, 17, 22,
      5, 9, 14, 20, 5, 9, 14, 20, 5, 9, 14, 20, 5, 9, 14, 20,
      4, 11, 16, 23, 4, 11, 16, 23, 4, 11, 16, 23, 4, 11, 16, 23,
      6, 10, 15, 21, 6, 10, 15, 21, 6, 10, 15, 21, 6, 10, 15, 21]"

definition md5_sines :: "32 word list" where
  "md5_sines =
     [0xd76aa478, 0xe8c7b756, 0x242070db, 0xc1bdceee, 0xf57c0faf, 0x4787c62a, 0xa8304613,
      0xfd469501, 0x698098d8, 0x8b44f7af, 0xffff5bb1, 0x895cd7be, 0x6b901122, 0xfd987193,
      0xa679438e, 0x49b40821, 0xf61e2562, 0xc040b340, 0x265e5a51, 0xe9b6c7aa, 0xd62f105d,
      0x02441453, 0xd8a1e681, 0xe7d3fbc8, 0x21e1cde6, 0xc33707d6, 0xf4d50d87, 0x455a14ed,
      0xa9e3e905, 0xfcefa3f8, 0x676f02d9, 0x8d2a4c8a, 0xfffa3942, 0x8771f681, 0x6d9d6122,
      0xfde5380c, 0xa4beea44, 0x4bdecfa9, 0xf6bb4b60, 0xbebfbc70, 0x289b7ec6, 0xeaa127fa,
      0xd4ef3085, 0x04881d05, 0xd9d4d039, 0xe6db99e5, 0x1fa27cf8, 0xc4ac5665, 0xf4292244,
      0x432aff97, 0xab9423a7, 0xfc93a039, 0x655b59c3, 0x8f0ccc92, 0xffeff47d, 0x85845dd1,
      0x6fa87e4f, 0xfe2ce6e0, 0xa3014314, 0x4e0811a1, 0xf7537e82, 0xbd3af235, 0x2ad7d2bb,
      0xeb86d391]"

definition le_bytes :: "nat \<Rightarrow> 'a::len word \<Rightarrow> 8 word list" where
  "le_bytes k w = map (\<lambda>i. ucast (drop_bit (8 * i) w)) [0..<k]"

definition md5_pad :: "8 word list \<Rightarrow> 8 word list" where
  "md5_pad bs =
     bs @ [0x80] @ replicate ((119 - length bs mod 64) mod 64) 0
        @ le_bytes 8 (of_nat (8 * length bs) :: 64 word)"

fun le_word :: "8 word list \<Rightarrow> 32 word" where
  "le_word [] = 0"
| "le_word (b # bs) = ucast b + push_bit 8 (le_word bs)"

fun chunks :: "nat \<Rightarrow> 'a list \<Rightarrow> 'a list list" where
  "chunks n [] = []"
| "chunks n (x # xs) =
     (if n = 0 then [] else take n (x # xs) # chunks n (drop n (x # xs)))"

type_synonym md5_state = "32 word \<times> 32 word \<times> 32 word \<times> 32 word"

definition md5_step :: "32 word list \<Rightarrow> md5_state \<Rightarrow> nat \<Rightarrow> md5_state" where
  "md5_step m st i =
     (case st of (a, b, c, d) \<Rightarrow>
        let f = (if i < 16 then (b AND c) OR (NOT b AND d)
                 else if i < 32 then (d AND b) OR (NOT d AND c)
                 else if i < 48 then b XOR c XOR d
                 else c XOR (b OR NOT d));
            g = (if i < 16 then i
                 else if i < 32 then (5 * i + 1) mod 16
                 else if i < 48 then (3 * i + 5) mod 16
                 else (7 * i) mod 16);
            f' = f + a + md5_sines ! i + m ! g
        in (d, b + word_rotl (md5_shifts ! i) f', b, c))"

definition md5_block :: "md5_state \<Rightarrow> 8 word list \<Rightarrow> md5_state" where
  "md5_block st blk =
     (case st of (a0, b0, c0, d0) \<Rightarrow>
        (case foldl (md5_step (map le_word (chunks 4 blk))) st [0..<64] of
           (a, b, c, d) \<Rightarrow> (a0 + a, b0 + b, c0 + c, d0 + d)))"

definition md5_digest :: "8 word list \<Rightarrow> 8 word list" where
  "md5_digest bs =
     (case foldl md5_block (0x67452301, 0xefcdab89, 0x98badcfe, 0x10325476)
             (chunks 64 (md5_pad bs)) of
        (a, b, c, d) \<Rightarrow> concat (map (le_bytes 4) [a, b, c, d]))"

definition hex_digit :: "nat \<Rightarrow> char" where
  "hex_digit n = ''0123456789abcdef'' ! (n mod 16)"

definition hexdigest :: "8 word list \<Rightarrow> string" where
  "hexdigest bs = concat (map (\<lambda>b. [hex_digit (unat b div 16), hex_digit (unat b)]) bs)"

definition md5_hexdigest :: "string \<Rightarrow> string" where
  "md5_hexdigest s = hexdigest (md5_digest (utf8_encode s))"

section \<open>Cache keys and file paths (layers/cache.py)\<close>

text \<open>\<open>sep.join(xs)\<close>.\<close>

fun join :: "string \<Rightarrow> string list \<Rightarrow> string" where
  "join sep [] = []"
| "join sep [x] = x"
| "join sep (x # y # ys) = x @ sep @ join sep (y # ys)"

definition make_key :: "string \<Rightarrow> string list \<Rightarrow> string" where
  "make_key namespace parts =
     (let raw = join '':'' (namespace # parts)
      in if length raw > 200 then namespace @ '':'' @ md5_hexdigest raw else raw)"

text \<open>\<open>s.replace(old, new)\<close> for one-character \<open>old\<close> and \<open>new\<close>.\<close>

definition replace_char :: "char \<Rightarrow> char \<Rightarrow> string \<Rightarrow> string" where
  "replace_char old new s = map (\<lambda>c. if c = old then new else c) s"

text \<open>\<open>os.path.join(a, b)\<close> on a POSIX system.\<close>

definition path_join :: "string \<Rightarrow> string \<Rightarrow> string" where
  "path_join a b =
     (if b \<noteq> [] \<and> hd b = CHR ''/'' then b
      else if a = [] \<or> last a = CHR ''/'' then a @ b
      else a @ ''/'' @ b)"

definition file_path :: "string \<Rightarrow> string \<Rightarrow> string" where
  "file_path cache_dir key =
     (let safe = replace_char CHR ''/'' CHR ''_'' (replace_char CHR '':'' CHR ''_'' key)
      in path_join cache_dir (safe @ ''.json''))"

section \<open>Floating-point values\<close>

text \<open>
  A Python or pandas float is a finite value, an infinity or not-a-number. Finite
  arithmetic is taken to be exact (no rounding error, no overflow, no signed zero); the
  special values follow IEEE 754, which is what numpy and pandas compute with.
\<close>

datatype fl = Fin real | PInf | NInf | NaN

definition inf_of :: "bool \<Rightarrow> fl" where
  "inf_of positive = (if positive then PInf else NInf)"

fun fl_neg :: "fl \<Rightarrow> fl" where
  "fl_neg (Fin x) = Fin (- x)"
| "fl_neg PInf = NInf"
| "fl_neg NInf = PInf"
| "fl_neg NaN = NaN"

fun fl_add :: "fl \<Rightarrow> fl \<Rightarrow> fl" where
  "fl_add NaN y = NaN"
| "fl_add x NaN = NaN"
| "fl_add (Fin x) (Fin y) = Fin (x + y)"
| "fl_add PInf NInf = NaN"
| "fl_add NInf PInf = NaN"
| "fl_add PInf y = PInf"
| "fl_add NInf y = NInf"
| "fl_add (Fin x) y = y"

definition fl_sub :: "fl \<Rightarrow> fl \<Rightarrow> fl" where
  "fl_sub x y = fl_add x (fl_neg y)"

fun fl_mul :: "fl \<Rightarrow> fl \<Rightarrow> fl" where
  "fl_mul NaN y = NaN"
| "fl_mul x NaN = NaN"
| "fl_mul (Fin x) (Fin y) = Fin (x * y)"
| "fl_mul (Fin x) PInf = (if x = 0 then NaN else inf_of (0 < x))"
| "fl_mul (Fin x) NInf = (if x = 0 then NaN else inf_of (x < 0))"
| "fl_mul PInf (Fin y) = (if y = 0 then NaN else inf_of (0 < y))"
| "fl_mul NInf (Fin y) = (if y = 0 then NaN else inf_of (y < 0))"
| "fl_mul PInf PInf = PInf"
| "fl_mul NInf NInf = PInf"
| "fl_mul PInf NInf = NInf"
| "fl_mul NInf PInf = NInf"

fun fl_div :: "fl \<Rightarrow> fl \<Rightarrow> fl" where
  "fl_div NaN y = NaN"
| "fl_div x NaN = NaN"
| "fl_div (Fin x) (Fin y) =
     (if y \<noteq> 0 then Fin (x / y) else if x = 0 then NaN else inf_of (0 < x))"
| "fl_div (Fin x) PInf = Fin 0"
| "fl_div (Fin x) NInf = Fin 0"
| "fl_div PInf (Fin y) = inf_of (0 \<le> y)"
| "fl_div NInf (Fin y) = inf_of (y < 0)"
| "fl_div PInf y = NaN"
| "fl_div NInf y = NaN"

text \<open>Comparisons: every comparison with not-a-number is false.\<close>

fun fl_lt :: "fl \<Rightarrow> fl \<Rightarrow> bool" where
  "fl_lt NaN y = False"
| "fl_lt x NaN = False"
| "fl_lt (Fin x) (Fin y) = (x < y)"
| "fl_lt x PInf = (x \<noteq> PInf)"
| "fl_lt NInf y = (y \<noteq> NInf)"
| "fl_lt x y = False"

definition fl_le :: "fl \<Rightarrow> fl \<Rightarrow> bool" where
  "fl_le x y = (x \<noteq> NaN \<and> y \<noteq> NaN \<and> (x = y \<or> fl_lt x y))"

definition fl_eq :: "fl \<Rightarrow> fl \<Rightarrow> bool" where
  "fl_eq x y = (x \<noteq> NaN \<and> x = y)"

fun fl_abs :: "fl \<Rightarrow> fl" where
  "fl_abs (Fin x) = Fin \<bar>x\<bar>"
| "fl_abs NaN = NaN"
| "fl_abs x = PInf"

fun fl_sqrt :: "fl \<Rightarrow> fl" where
  "fl_sqrt (Fin x) = (if x < 0 then NaN else Fin (sqrt x))"
| "fl_sqrt PInf = PInf"
| "fl_sqrt x = NaN"

text \<open>
  \<open>round(4)\<close>: numpy scales by \<open>10\<^sup>4\<close>, rounds to the nearest integer with ties to the even
  one, and scales back.
\<close>

definition rint :: "real \<Rightarrow> int" where
  "rint y =
     (let f = \<lfloor>y\<rfloor>; d = y - of_int f
      in if d < 1 / 2 then f else if 1 / 2 < d then f + 1 else if even f then f else f + 1)"

fun round4 :: "fl \<Rightarrow> fl" where
  "round4 (Fin x) = Fin (of_int (rint (x * 10000)) / 10000)"
| "round4 x = x"

section \<open>The multi-tier cache (layers/cache.py)\<close>

text \<open>
  Exceptions are values. Every constructor stands for a subclass of Python's
  \<open>Exception\<close>, which is what \<open>except Exception\<close> catches.
\<close>

datatype exn =
  ConnectionError | TimeoutError | JSONDecodeError | TypeError | AttributeError
  | ValueError | KeyError | OSError | RuntimeError | ImportError | NotImplementedError

text \<open>
  Cached payloads are JSON values; Python's \<open>None\<close> is \<open>JNull\<close>, so a lookup that
  returns \<open>JNull\<close> is what the caller sees as "absent".
\<close>

datatype json =
  JNull | JBool bool | JNum fl | JStr string | JList "json list"
  | JDict "(string \<times> json) list"

text \<open>
  The text held by tier 1 and by a tier-3 file: a well-formed JSON text is identified with
  the value it denotes (\<open>json.dumps\<close> with \<open>default=str\<close> is total on JSON values and
  \<open>json.loads\<close> inverts it); \<open>Malformed\<close> is any text that \<open>json.loads\<close> rejects, an
  empty or half-written file included.
\<close>

datatype jtext = Json json | Malformed

definition json_dumps :: "json \<Rightarrow> jtext" where
  "json_dumps v = Json v"

fun json_loads :: "jtext \<Rightarrow> exn + json" where
  "json_loads (Json v) = Inr v"
| "json_loads Malformed = Inl JSONDecodeError"

text \<open>Python truthiness of a JSON value, and \<open>doc.get(name)\<close>.\<close>

fun truthy :: "json \<Rightarrow> bool" where
  "truthy JNull = False"
| "truthy (JBool b) = b"
| "truthy (JNum x) = (x \<noteq> Fin 0)"
| "truthy (JStr s) = (s \<noteq> [])"
| "truthy (JList xs) = (xs \<noteq> [])"
| "truthy (JDict kvs) = (kvs \<noteq> [])"

fun dict_get :: "json \<Rightarrow> string \<Rightarrow> exn + json" where
  "dict_get (JDict kvs) name = Inr (case map_of kvs name of None \<Rightarrow> JNull | Some v \<Rightarrow> v)"
| "dict_get _ name = Inl AttributeError"

text \<open>\<open>x < t\<close> for a JSON value \<open>x\<close> and a float \<open>t\<close>.\<close>

fun lt_float :: "json \<Rightarrow> real \<Rightarrow> exn + bool" where
  "lt_float (JNum x) t = Inr (fl_lt x (Fin t))"
| "lt_float (JBool b) t = Inr ((if b then 1 else 0) < t)"
| "lt_float _ t = Inl TypeError"

text \<open>
  Instants are seconds since the epoch. A document of the \<open>data_cache\<close> collection has the
  schema \<open>{key, value, expires_at}\<close>; \<open>expires_at\<close> is a BSON date or missing.
\<close>

type_synonym time = real

record mongo_doc =
  doc_key :: string
  doc_value :: json
  doc_expires_at :: "time option"

text \<open>
  The three tiers. \<open>redis = None\<close> and \<open>mongo = None\<close> stand for \<open>get_redis()\<close> and
  \<open>get_mongo_db()\<close> returning \<open>None\<close>; \<open>mongo = Some docs\<close> is the \<open>AsyncIOMotorDatabase\<close>
  that \<open>db/__init__.py\<close> stores once connected, with \<open>docs\<close> the content of its
  \<open>data_cache\<close> collection. Tier 1 keeps the expiry instant given by \<open>SETEX\<close> with each
  entry and stops returning the entry from that instant on.
\<close>

record cache_state =
  redis :: "(string \<rightharpoonup> jtext \<times> time) option"
  mongo :: "mongo_doc list option"
  files :: "string \<rightharpoonup> jtext"

text \<open>
  What the surroundings decide for one call: the clock, the settings, whether the document
  store's client returns timezone-aware datetimes (pymongo's \<open>tz_aware\<close> option, which
  \<open>db/__init__.py\<close> leaves at its default, false: BSON dates are then read back as naive
  datetimes), and for each backend operation whether it raises (\<open>Some e\<close>) or goes
  through. An operation that raises leaves its store as it was.
\<close>

record env =
  now :: time
  CACHE_TTL :: int
  CACHE_DIR :: string
  tz_aware :: bool
  redis_get_exn :: "exn option"
  redis_setex_exn :: "exn option"
  redis_delete_exn :: "exn option"
  find_one_exn :: "exn option"
  update_one_exn :: "exn option"
  delete_one_exn :: "exn option"
  open_read_exn :: "exn option"
  remove_exn :: "exn option"
  makedirs_exn :: "exn option"
  open_write_exn :: "exn option"
  dump_exn :: "exn option"

text \<open>The backend calls an operation makes, in order.\<close>

datatype call =
  RedisGet string | RedisSetex string | RedisDelete string
  | FindOne string | UpdateOne string | DeleteOne string
  | OpenRead string | Remove string | MakeDirs string | OpenWrite string | Dump string


text \<open>\<open>find_one\<close>, \<open>delete_one\<close> and \<open>update_one(..., upsert=True)\<close> on the collection.\<close>

definition find_one :: "mongo_doc list \<Rightarrow> string \<Rightarrow> mongo_doc option" where
  "find_one docs key = find (\<lambda>d. doc_key d = key) docs"

fun delete_one :: "mongo_doc list \<Rightarrow> string \<Rightarrow> mongo_doc list" where
  "delete_one [] key = []"
| "delete_one (d # ds) key = (if doc_key d = key then ds else d # delete_one ds key)"

fun upsert_one :: "mongo_doc list \<Rightarrow> mongo_doc \<Rightarrow> mongo_doc list" where
  "upsert_one [] new = [new]"
| "upsert_one (d # ds) new =
     (if doc_key d = doc_key new then new # ds else d # upsert_one ds new)"

text \<open>
  \<open>if db:\<close> asks the handle for its truth value. A Motor database object, like the pymongo
  one, does not implement truth value testing: \<open>bool(db)\<close> raises \<open>NotImplementedError\<close>
  (it is to be compared with \<open>None\<close>, as \<open>services/auth_service.py\<close> does). The test
  stands outside the \<open>try\<close> blocks of \<open>get\<close> and \<open>set\<close>.
\<close>

definition database_truth :: "mongo_doc list \<Rightarrow> exn + bool" where
  "database_truth docs = Inl NotImplementedError"

text \<open>
  \<open>expires_at < datetime.now(tz=timezone.utc)\<close>: the right-hand side is timezone-aware, and
  Python refuses to order a naive datetime against an aware one.
\<close>

definition datetime_lt_now :: "env \<Rightarrow> time \<Rightarrow> exn + bool" where
  "datetime_lt_now e t = (if tz_aware e then Inr (t < now e) else Inl TypeError)"

text \<open>
  \<open>CacheLayer.get\<close>, tier by tier. Each tier yields \<open>Some v\<close> when its \<open>return v\<close> is
  reached and \<open>None\<close> when control falls through to the code after it, together with the
  new state and the calls made. An exception raised inside a tier's \<open>try\<close> block is turned
  into falling through by its \<open>except Exception\<close> clause; one raised outside it (\<open>Inl\<close> as
  the tier's result) reaches the caller.
\<close>

definition get_L1 :: "env \<Rightarrow> cache_state \<Rightarrow> string \<Rightarrow> json option \<times> call list" where
  "get_L1 e s key =
     (case redis s of
        None \<Rightarrow> (None, [])
      | Some r \<Rightarrow>
          (case redis_get_exn e of
             Some x \<Rightarrow> (None, [RedisGet key])
           | None \<Rightarrow>
               (case r key of
                  None \<Rightarrow> (None, [RedisGet key])
                | Some (raw, expiry) \<Rightarrow>
                    if now e < expiry then
                      (case json_loads raw of
                         Inl x \<Rightarrow> (None, [RedisGet key])
                       | Inr v \<Rightarrow> (Some v, [RedisGet key]))
                    else (None, [RedisGet key]))))"

definition get_L2 ::
  "env \<Rightarrow> cache_state \<Rightarrow> string \<Rightarrow> (exn + json option) \<times> cache_state \<times> call list" where
  "get_L2 e s key =
     (case mongo s of
        None \<Rightarrow> (Inr None, s, [])
      | Some docs \<Rightarrow>
          (case database_truth docs of
             Inl x \<Rightarrow> (Inl x, s, [])
           | Inr False \<Rightarrow> (Inr None, s, [])
           | Inr True \<Rightarrow>
               (case find_one_exn e of
                  Some x \<Rightarrow> (Inr None, s, [FindOne key])
                | None \<Rightarrow>
                    (case find_one docs key of
                       None \<Rightarrow> (Inr None, s, [FindOne key])
                     | Some doc \<Rightarrow>
                         (case doc_expires_at doc of
                            None \<Rightarrow> (Inr (Some (doc_value doc)), s, [FindOne key])
                          | Some t \<Rightarrow>
                              (case datetime_lt_now e t of
                                 Inl x \<Rightarrow> (Inr None, s, [FindOne key])
                               | Inr False \<Rightarrow> (Inr (Some (doc_value doc)), s, [FindOne key])
                               | Inr True \<Rightarrow>
                                   (case delete_one_exn e of
                                      Some x \<Rightarrow> (Inr None, s, [FindOne key, DeleteOne key])
                                    | None \<Rightarrow>
                                        (Inr None, s\<lparr>mongo := Some (delete_one docs key)\<rparr>,
                                         [FindOne key, DeleteOne key]))))))))"

definition get_L3 ::
  "env \<Rightarrow> cache_state \<Rightarrow> string \<Rightarrow> json option \<times> cache_state \<times> call list" where
  "get_L3 e s key =
     (let path = file_path (CACHE_DIR e) key in
      case files s path of
        None \<Rightarrow> (None, s, [])
      | Some txt \<Rightarrow>
          (case open_read_exn e of
             Some x \<Rightarrow> (None, s, [OpenRead path])
           | None \<Rightarrow>
               (case json_loads txt of
                  Inl x \<Rightarrow> (None, s, [OpenRead path])
                | Inr doc \<Rightarrow>
                    (case dict_get doc ''expires_at'' of
                       Inl x \<Rightarrow> (None, s, [OpenRead path])
                     | Inr expires_at \<Rightarrow>
                         (case (if truthy expires_at then lt_float expires_at (now e)
                                else Inr False) of
                            Inl x \<Rightarrow> (None, s, [OpenRead path])
                          | Inr True \<Rightarrow>
                              (case remove_exn e of
                                 Some x \<Rightarrow> (None, s, [OpenRead path, Remove path])
                               | None \<Rightarrow>
                                   (None, s\<lparr>files := (files s)(path := None)\<rparr>,
                                    [OpenRead path, Remove path]))
                          | Inr False \<Rightarrow>
                              (case dict_get doc ''value'' of
                                 Inl x \<Rightarrow> (None, s, [OpenRead path])
                               | Inr v \<Rightarrow> (Some v, s, [OpenRead path])))))))"

text \<open>
  The whole of \<open>get\<close>. The result is \<open>Inr v\<close> when the call returns \<open>v\<close> (\<open>JNull\<close> for
  \<open>None\<close>) and \<open>Inl x\<close> when the exception \<open>x\<close> reaches the caller.
\<close>

definition cache_get ::
  "env \<Rightarrow> cache_state \<Rightarrow> string \<Rightarrow> string list
     \<Rightarrow> (exn + json) \<times> cache_state \<times> call list" where
  "cache_get e s namespace parts =
     (let key = make_key namespace parts in
      case get_L1 e s key of
        (Some v, c1) \<Rightarrow> (Inr v, s, c1)
      | (None, c1) \<Rightarrow>
          (case get_L2 e s key of
             (Inl x, s2, c2) \<Rightarrow> (Inl x, s2, c1 @ c2)
           | (Inr (Some v), s2, c2) \<Rightarrow> (Inr v, s2, c1 @ c2)
           | (Inr None, s2, c2) \<Rightarrow>
               (case get_L3 e s2 key of
                  (Some v, s3, c3) \<Rightarrow> (Inr v, s3, c1 @ c2 @ c3)
                | (None, s3, c3) \<Rightarrow> (Inr JNull, s3, c1 @ c2 @ c3))))"

text \<open>
  \<open>CacheLayer.set\<close>. Tiers 1 and 2 yield \<open>True\<close> when their \<open>return\<close> is reached and
  \<open>False\<close> when control goes on to the next tier; tier 2 yields \<open>Inl x\<close> when \<open>x\<close> is
  raised outside its \<open>try\<close> block.
\<close>

definition set_L1 ::
  "env \<Rightarrow> cache_state \<Rightarrow> string \<Rightarrow> int \<Rightarrow> jtext \<Rightarrow> bool \<times> cache_state \<times> call list" where
  "set_L1 e s key ttl serialized =
     (case redis s of
        None \<Rightarrow> (False, s, [])
      | Some r \<Rightarrow>
          (case redis_setex_exn e of
             Some x \<Rightarrow> (False, s, [RedisSetex key])
           | None \<Rightarrow>
               (True, s\<lparr>redis := Some (r(key \<mapsto> (serialized, now e + real_of_int ttl)))\<rparr>,
                [RedisSetex key])))"

definition set_L2 ::
  "env \<Rightarrow> cache_state \<Rightarrow> string \<Rightarrow> int \<Rightarrow> json
     \<Rightarrow> (exn + bool) \<times> cache_state \<times> call list" where
  "set_L2 e s key ttl v =
     (case mongo s of
        None \<Rightarrow> (Inr False, s, [])
      | Some docs \<Rightarrow>
          (case database_truth docs of
             Inl x \<Rightarrow> (Inl x, s, [])
           | Inr False \<Rightarrow> (Inr False, s, [])
           | Inr True \<Rightarrow>
               (case update_one_exn e of
                  Some x \<Rightarrow> (Inr False, s, [UpdateOne key])
                | None \<Rightarrow>
                    (Inr True,
                     s\<lparr>mongo := Some (upsert_one docs
                          \<lparr>doc_key = key, doc_value = v,
                           doc_expires_at = Some (now e + real_of_int ttl)\<rparr>)\<rparr>,
                     [UpdateOne key]))))"

definition set_L3 ::
  "env \<Rightarrow> cache_state \<Rightarrow> string \<Rightarrow> int \<Rightarrow> json \<Rightarrow> cache_state \<times> call list" where
  "set_L3 e s key ttl v =
     (case makedirs_exn e of
        Some x \<Rightarrow> (s, [MakeDirs (CACHE_DIR e)])
      | None \<Rightarrow>
          (let path = file_path (CACHE_DIR e) key in
           case open_write_exn e of
             Some x \<Rightarrow> (s, [MakeDirs (CACHE_DIR e), OpenWrite path])
           | None \<Rightarrow>
               (case dump_exn e of
                  Some x \<Rightarrow>
                    (s\<lparr>files := (files s)(path \<mapsto> Malformed)\<rparr>,
                     [MakeDirs (CACHE_DIR e), OpenWrite path, Dump path])
                | None \<Rightarrow>
                    (s\<lparr>files := (files s)(path \<mapsto>
                         json_dumps (JDict [(''value'', v),
                           (''expires_at'', JNum (Fin (now e + real_of_int ttl)))]))\<rparr>,
                     [MakeDirs (CACHE_DIR e), OpenWrite path, Dump path]))))"

definition cache_set ::
  "env \<Rightarrow> cache_state \<Rightarrow> json \<Rightarrow> string \<Rightarrow> string list \<Rightarrow> int option
     \<Rightarrow> (exn + unit) \<times> cache_state \<times> call list" where
  "cache_set e s v namespace parts ttl_arg =
     (let ttl = (case ttl_arg of None \<Rightarrow> CACHE_TTL e | Some t \<Rightarrow> t);
          key = make_key namespace parts;
          serialized = json_dumps v
      in case set_L1 e s key ttl serialized of
           (True, s1, c1) \<Rightarrow> (Inr (), s1, c1)
         | (False, s1, c1) \<Rightarrow>
             (case set_L2 e s1 key ttl v of
                (Inl x, s2, c2) \<Rightarrow> (Inl x, s2, c1 @ c2)
              | (Inr True, s2, c2) \<Rightarrow> (Inr (), s2, c1 @ c2)
              | (Inr False, s2, c2) \<Rightarrow>
                  (case set_L3 e s2 key ttl v of
                     (s3, c3) \<Rightarrow> (Inr (), s3, c1 @ c2 @ c3))))"

text \<open>The tier a backend call belongs to.\<close>

fun tier_of :: "call \<Rightarrow> nat" where
  "tier_of (RedisGet k) = 1"
| "tier_of (RedisSetex k) = 1"
| "tier_of (RedisDelete k) = 1"
| "tier_of (FindOne k) = 2"
| "tier_of (UpdateOne k) = 2"
| "tier_of (DeleteOne k) = 2"
| "tier_of (OpenRead p) = 3"
| "tier_of (Remove p) = 3"
| "tier_of (MakeDirs p) = 3"
| "tier_of (OpenWrite p) = 3"
| "tier_of (Dump p) = 3"

text \<open>
  An environment in which no backend call raises, with the client as the service creates
  it, and a cache with neither tier 1 nor tier 2.
\<close>

definition quiet_env :: env where
  "quiet_env =
     \<lparr>now = 1000, CACHE_TTL = 3600, CACHE_DIR = ''./cache'', tz_aware = False,
      redis_get_exn = None, redis_setex_exn = None, redis_delete_exn = None,
      find_one_exn = None, update_one_exn = None, delete_one_exn = None,
      open_read_exn = None, remove_exn = None, makedirs_exn = None,
      open_write_exn = None, dump_exn = None\<rparr>"

definition files_only :: cache_state where
  "files_only = \<lparr>redis = None, mongo = None, files = Map.empty\<rparr>"

text \<open>
  A cache whose three tiers are all present and empty, and one in which every tier holds
  something unusable under the key \<open>history:CN:000001\<close>: undecodable text in tier 1, and
  entries that expired at instant 500 in tiers 2 and 3.
\<close>

definition all_tiers :: cache_state where
  "all_tiers = \<lparr>redis = Some Map.empty, mongo = Some [], files = Map.empty\<rparr>"

definition stale_doc :: mongo_doc where
  "stale_doc =
     \<lparr>doc_key = ''history:CN:000001'', doc_value = JStr ''old'', doc_expires_at = Some 500\<rparr>"

definition stale_cache :: cache_state where
  "stale_cache =
     \<lparr>redis = Some [''history:CN:000001'' \<mapsto> (Malformed, 2000)],
      mongo = Some [stale_doc],
      files = [''./cache/history_CN_000001.json'' \<mapsto>
                 Json (JDict [(''value'', JStr ''old''), (''expires_at'', JNum (Fin 500))])]\<rparr>"

text \<open>A cache holding a live entry for that key in every tier.\<close>

definition live_cache :: cache_state where
  "live_cache =
     \<lparr>redis = Some [''history:CN:000001'' \<mapsto> (Json (JStr ''v1''), 2000)],
      mongo = Some [\<lparr>doc_key = ''history:CN:000001'', doc_value = JStr ''v2'',
                      doc_expires_at = Some 2000\<rparr>],
      files = [''./cache/history_CN_000001.json'' \<mapsto>
                 Json (JDict [(''value'', JStr ''v3''), (''expires_at'', JNum (Fin 2000))])]\<rparr>"

section \<open>Raw records and the acquisition layer (layers/acquisition.py)\<close>

text \<open>
  A raw record is a Python dict from field names to values; a value is a float, a string
  or \<open>None\<close>.
\<close>

datatype cell = Num fl | Str string | NoneC

type_synonym pydict = "(string \<times> cell) list"

text \<open>
  The configuration and the upstream data sources. Each source is what its adapter does
  once the arguments are prepared: import the client library, call the remote service and
  translate the rows into raw records, or raise.
\<close>

record acq_env =
  DEFAULT_CHINA_DATA_SOURCE :: string
  TUSHARE_TOKEN :: string
  akshare_hist :: "string \<Rightarrow> string \<Rightarrow> string \<Rightarrow> exn + pydict list"
  tushare_daily :: "string \<Rightarrow> string \<Rightarrow> string \<Rightarrow> exn + pydict list"
  baostock_k_data :: "string \<Rightarrow> string \<Rightarrow> string \<Rightarrow> exn + pydict list"
  akshare_hk_daily :: "string \<Rightarrow> string \<Rightarrow> string \<Rightarrow> exn + pydict list"
  yfinance_history :: "string \<Rightarrow> string \<Rightarrow> string \<Rightarrow> exn + pydict list"

definition CHINA_PROVIDER_ORDER :: "string list" where
  "CHINA_PROVIDER_ORDER = [''akshare'', ''tushare'', ''baostock'']"

text \<open>\<open>s.replace("-", "")\<close>.\<close>

definition remove_dashes :: "string \<Rightarrow> string" where
  "remove_dashes s = filter (\<lambda>c. c \<noteq> CHR ''-'') s"

definition akshare_stock_history ::
  "acq_env \<Rightarrow> string \<Rightarrow> string \<Rightarrow> string \<Rightarrow> exn + pydict list" where
  "akshare_stock_history a symbol start_date end_date =
     akshare_hist a symbol (remove_dashes start_date) (remove_dashes end_date)"

definition tushare_stock_history ::
  "acq_env \<Rightarrow> string \<Rightarrow> string \<Rightarrow> string \<Rightarrow> exn + pydict list" where
  "tushare_stock_history a symbol start_date end_date =
     (if TUSHARE_TOKEN a = [] then Inl RuntimeError
      else tushare_daily a symbol (remove_dashes start_date) (remove_dashes end_date))"

definition baostock_stock_history ::
  "acq_env \<Rightarrow> string \<Rightarrow> string \<Rightarrow> string \<Rightarrow> exn + pydict list" where
  "baostock_stock_history a symbol start_date end_date =
     baostock_k_data a symbol start_date end_date"

definition fetch_china_history ::
  "acq_env \<Rightarrow> string \<Rightarrow> string \<Rightarrow> string \<Rightarrow> string \<Rightarrow> exn + pydict list" where
  "fetch_china_history a provider symbol start_date end_date =
     (if provider = ''akshare'' then akshare_stock_history a symbol start_date end_date
      else if provider = ''tushare'' then tushare_stock_history a symbol start_date end_date
      else if provider = ''baostock'' then baostock_stock_history a symbol start_date end_date
      else Inr [])"

definition china_providers :: "acq_env \<Rightarrow> string list" where
  "china_providers a =
     DEFAULT_CHINA_DATA_SOURCE a
       # filter (\<lambda>p. p \<noteq> DEFAULT_CHINA_DATA_SOURCE a) CHINA_PROVIDER_ORDER"

text \<open>
  The loop over the candidates: the result, and the providers called, in order. A call
  that raises is logged and the loop goes on; so does a call that returns an empty list.
\<close>

fun failover :: "(string \<Rightarrow> exn + pydict list) \<Rightarrow> string list \<Rightarrow> pydict list \<times> string list" where
  "failover fetch [] = ([], [])"
| "failover fetch (p # ps) =
     (case fetch p of
        Inr result \<Rightarrow>
          if result \<noteq> [] then (result, [p])
          else (case failover fetch ps of (r, called) \<Rightarrow> (r, p # called))
      | Inl exc \<Rightarrow> (case failover fetch ps of (r, called) \<Rightarrow> (r, p # called)))"

text \<open>
  \<open>AcquisitionLayer.get_china_stock_history\<close>: \<open>Inr\<close> of the returned list (an \<open>Inl\<close> would
  be an exception reaching the caller), and the providers called.
\<close>

definition get_china_stock_history ::
  "acq_env \<Rightarrow> string \<Rightarrow> string \<Rightarrow> string \<Rightarrow> (exn + pydict list) \<times> string list" where
  "get_china_stock_history a symbol start_date end_date =
     (case failover (\<lambda>p. fetch_china_history a p symbol start_date end_date)
             (china_providers a) of
        (r, called) \<Rightarrow> (Inr r, called))"

text \<open>The Hong Kong and US fetches: one source each, any exception gives the empty list.\<close>

definition get_hk_stock_history ::
  "acq_env \<Rightarrow> string \<Rightarrow> string \<Rightarrow> string \<Rightarrow> (exn + pydict list) \<times> string list" where
  "get_hk_stock_history a symbol start_date end_date =
     (case akshare_hk_daily a symbol start_date end_date of
        Inl exc \<Rightarrow> (Inr [], [''akshare''])
      | Inr r \<Rightarrow> (Inr r, [''akshare'']))"

definition get_us_stock_history ::
  "acq_env \<Rightarrow> string \<Rightarrow> string \<Rightarrow> string \<Rightarrow> (exn + pydict list) \<times> string list" where
  "get_us_stock_history a symbol start_date end_date =
     (case yfinance_history a symbol start_date end_date of
        Inl exc \<Rightarrow> (Inr [], [''yfinance''])
      | Inr r \<Rightarrow> (Inr r, [''yfinance'']))"

text \<open>Whether a provider's call wins: it raises nothing and returns a non-empty list.\<close>

definition wins :: "(string \<Rightarrow> exn + pydict list) \<Rightarrow> string \<Rightarrow> bool" where
  "wins fetch p = (case fetch p of Inl exc \<Rightarrow> False | Inr r \<Rightarrow> r \<noteq> [])"

definition result_of :: "(string \<Rightarrow> exn + pydict list) \<Rightarrow> string \<Rightarrow> pydict list" where
  "result_of fetch p = (case fetch p of Inl exc \<Rightarrow> [] | Inr r \<Rightarrow> r)"

text \<open>
  Sources for a worked example: the default provider is tushare with no token configured,
  akshare is unreachable, and baostock returns one bar.
\<close>

definition bar_0102 :: pydict where
  "bar_0102 =
     [(''date'', Str ''2024-01-02''), (''open'', Num (Fin 10)), (''high'', Num (Fin 12)),
      (''low'', Num (Fin 9)), (''close'', Num (Fin 11)), (''volume'', Num (Fin 1000))]"

definition degraded_sources :: acq_env where
  "degraded_sources =
     \<lparr>DEFAULT_CHINA_DATA_SOURCE = ''tushare'', TUSHARE_TOKEN = [],
      akshare_hist = (\<lambda>symbol s e. Inl ConnectionError),
      tushare_daily = (\<lambda>symbol s e. Inr [bar_0102]),
      baostock_k_data = (\<lambda>symbol s e. Inr [bar_0102]),
      akshare_hk_daily = (\<lambda>symbol s e. Inr []),
      yfinance_history = (\<lambda>symbol s e. Inr [])\<rparr>"

section \<open>Frames and the processing layer (layers/processing.py)\<close>

text \<open>
  A \<open>DataFrame\<close> is its list of column names and its rows in index order; a row gives the
  cell of every column (and not-a-number for a name that is no column). \<open>df.empty\<close> holds
  when there are no columns or no rows.
\<close>

type_synonym row = "string \<Rightarrow> cell"

record frame =
  columns :: "string list"
  rows :: "row list"

definition empty_frame :: frame where
  "empty_frame = \<lparr>columns = [], rows = []\<rparr>"

definition df_empty :: "frame \<Rightarrow> bool" where
  "df_empty df = (columns df = [] \<or> rows df = [])"

text \<open>
  \<open>pd.DataFrame(records)\<close>: the columns are the keys in order of first appearance, and a
  key missing from a record is not-a-number in its row.
\<close>

definition DataFrame :: "pydict list \<Rightarrow> frame" where
  "DataFrame records =
     \<lparr>columns = rev (remdups (rev (concat (map (map fst) records)))),
      rows = map (\<lambda>d c. case map_of d c of None \<Rightarrow> Num NaN | Some v \<Rightarrow> v) records\<rparr>"

text \<open>\<open>df[name] = values\<close>, \<open>df[name] = scalar\<close> and \<open>df[name]\<close>.\<close>

definition assign :: "string \<Rightarrow> cell list \<Rightarrow> frame \<Rightarrow> frame" where
  "assign name vs df =
     \<lparr>columns = (if name \<in> set (columns df) then columns df else columns df @ [name]),
      rows = map (\<lambda>(r, v). r(name := v)) (zip (rows df) vs)\<rparr>"

definition assign_scalar :: "string \<Rightarrow> cell \<Rightarrow> frame \<Rightarrow> frame" where
  "assign_scalar name v df = assign name (replicate (length (rows df)) v) df"

definition column :: "frame \<Rightarrow> string \<Rightarrow> exn + cell list" where
  "column df name =
     (if name \<in> set (columns df) then Inr (map (\<lambda>r. r name) (rows df)) else Inl KeyError)"

text \<open>
  What pandas parses: \<open>pd.to_datetime(column, errors="coerce")\<close> gives for each element
  of the column a timestamp or, where parsing fails, nothing (the format may be inferred
  from the whole column, which is the first argument); \<open>pd.to_numeric\<close> reads a number out
  of a string or fails.
\<close>

record timestamp =
  ts_year :: nat
  ts_month :: nat
  ts_day :: nat
  ts_nanos :: nat

record pandas =
  to_datetime :: "cell list \<Rightarrow> cell \<Rightarrow> timestamp option"
  parse_number :: "string \<Rightarrow> fl option"

text \<open>\<open>pd.to_numeric(x, errors="coerce")\<close> on one cell, and \<open>fillna(0.0)\<close>.\<close>

fun to_numeric :: "pandas \<Rightarrow> cell \<Rightarrow> fl" where
  "to_numeric P (Num x) = x"
| "to_numeric P (Str s) = (case parse_number P s of None \<Rightarrow> NaN | Some x \<Rightarrow> x)"
| "to_numeric P NoneC = NaN"

definition fillna0 :: "fl \<Rightarrow> fl" where
  "fillna0 x = (if x = NaN then Fin 0 else x)"

text \<open>
  \<open>strftime("%Y-%m-%d")\<close>. A pandas timestamp has a four-digit year and two-digit month
  and day, so fixed-width digits are exact.
\<close>

definition digit :: "nat \<Rightarrow> char" where
  "digit n = ''0123456789'' ! (n mod 10)"

definition strftime_ymd :: "timestamp \<Rightarrow> string" where
  "strftime_ymd t =
     [digit (ts_year t div 1000), digit (ts_year t div 100), digit (ts_year t div 10),
      digit (ts_year t)]
     @ ''-'' @ [digit (ts_month t div 10), digit (ts_month t)]
     @ ''-'' @ [digit (ts_day t div 10), digit (ts_day t)]"

text \<open>The string in a row's \<open>date\<close> cell.\<close>

definition date_of :: "row \<Rightarrow> string" where
  "date_of r = (case r ''date'' of Str s \<Rightarrow> s | _ \<Rightarrow> [])"

text \<open>\<open>drop_duplicates(subset=[key], keep="last")\<close>: a row stays when no later row has its key.\<close>

fun drop_duplicates_last :: "('a \<Rightarrow> 'k) \<Rightarrow> 'a list \<Rightarrow> 'a list" where
  "drop_duplicates_last key [] = []"
| "drop_duplicates_last key (r # rs) =
     (if key r \<in> key ` set rs then drop_duplicates_last key rs
      else r # drop_duplicates_last key rs)"

text \<open>
  \<open>ProcessingLayer.normalize_ohlcv\<close>, step by step. \<open>dated_rows\<close> is the frame's rows
  after the date column has been parsed, the rows with an unparsable date dropped, and the
  date rewritten as \<open>YYYY-MM-DD\<close>.
\<close>

definition required_columns :: "string list" where
  "required_columns = [''date'', ''open'', ''high'', ''low'', ''close'', ''volume'']"

definition numeric_columns :: "string list" where
  "numeric_columns = [''open'', ''high'', ''low'', ''close'', ''volume'', ''amount'', ''pct_chg'']"

definition ensure_column :: "frame \<Rightarrow> string \<Rightarrow> frame" where
  "ensure_column df col =
     (if col \<in> set (columns df) then df else assign_scalar col (Num (Fin 0)) df)"

definition coerce_column :: "pandas \<Rightarrow> frame \<Rightarrow> string \<Rightarrow> frame" where
  "coerce_column P df col =
     (if col \<in> set (columns df)
      then assign col (map (\<lambda>r. Num (fillna0 (to_numeric P (r col)))) (rows df)) df
      else df)"

definition dated_rows :: "pandas \<Rightarrow> row list \<Rightarrow> row list" where
  "dated_rows P rs =
     concat (map (\<lambda>r. case to_datetime P (map (\<lambda>r. r ''date'') rs) (r ''date'') of
                         None \<Rightarrow> []
                       | Some t \<Rightarrow> [r(''date'' := Str (strftime_ymd t))]) rs)"

definition prepared :: "pandas \<Rightarrow> pydict list \<Rightarrow> frame" where
  "prepared P records =
     foldl (coerce_column P) (foldl ensure_column (DataFrame records) required_columns)
       numeric_columns"

definition normalize_ohlcv :: "pandas \<Rightarrow> pydict list \<Rightarrow> frame" where
  "normalize_ohlcv P records =
     (if records = [] then empty_frame
      else let df = prepared P records
           in \<lparr>columns = columns df,
               rows = sort_key date_of
                        (drop_duplicates_last date_of (dated_rows P (rows df)))\<rparr>)"

text \<open>
  The row that the column steps above make of one raw record, read off the record itself:
  a required column that no record has is zero, any other cell is the record's (or
  not-a-number when the record lacks it), and the cell of a numeric column that exists is
  coerced to a number with zero for what cannot be read. \<open>cols\<close> are the keys of all the
  records.
\<close>

definition prepared_row :: "pandas \<Rightarrow> string list \<Rightarrow> pydict \<Rightarrow> row" where
  "prepared_row P cols d =
     (\<lambda>c. let v = (if c \<in> set required_columns \<and> c \<notin> set cols then Num (Fin 0)
                   else (case map_of d c of None \<Rightarrow> Num NaN | Some v \<Rightarrow> v))
          in if c \<in> set numeric_columns \<and> (c \<in> set cols \<or> c \<in> set required_columns)
             then Num (fillna0 (to_numeric P v)) else v)"

text \<open>\<open>to_records\<close>: the rows as dicts, in column order.\<close>

definition to_records :: "frame \<Rightarrow> pydict list" where
  "to_records df =
     (if df_empty df then [] else map (\<lambda>r. map (\<lambda>c. (c, r c)) (columns df)) (rows df))"

text \<open>
  \<open>filter_date_range\<close>. An absent or empty bound is not applied; comparing the date column
  with a string raises when the column is missing or holds something other than strings.
\<close>

definition all_strings :: "cell list \<Rightarrow> bool" where
  "all_strings cs = list_all (\<lambda>c. case c of Str s \<Rightarrow> True | _ \<Rightarrow> False) cs"

definition keep_rows :: "(string \<Rightarrow> bool) \<Rightarrow> frame \<Rightarrow> exn + frame" where
  "keep_rows ok df =
     (case column df ''date'' of
        Inl e \<Rightarrow> Inl e
      | Inr ds \<Rightarrow>
          if all_strings ds then Inr (df\<lparr>rows := filter (\<lambda>r. ok (date_of r)) (rows df)\<rparr>)
          else Inl TypeError)"

definition bound_given :: "string option \<Rightarrow> bool" where
  "bound_given b = (case b of None \<Rightarrow> False | Some s \<Rightarrow> s \<noteq> [])"

definition filter_date_range :: "frame \<Rightarrow> string option \<Rightarrow> string option \<Rightarrow> exn + frame" where
  "filter_date_range df start_date end_date =
     (if df_empty df then Inr df
      else case (if bound_given start_date then keep_rows (\<lambda>d. the start_date \<le> d) df
                 else Inr df) of
             Inl e \<Rightarrow> Inl e
           | Inr df1 \<Rightarrow>
               if bound_given end_date then keep_rows (\<lambda>d. d \<le> the end_date) df1
               else Inr df1)"

text \<open>
  \<open>fill_missing\<close>: in each price column a zero counts as missing, and a missing cell takes
  the last cell before it that is not missing. It raises when a price column is absent.
\<close>

definition is_missing :: "cell \<Rightarrow> bool" where
  "is_missing c = (c = NoneC \<or> c = Num NaN)"

definition zero_to_none :: "cell \<Rightarrow> cell" where
  "zero_to_none c = (if c = Num (Fin 0) then NoneC else c)"

fun ffill :: "cell option \<Rightarrow> cell list \<Rightarrow> cell list" where
  "ffill prev [] = []"
| "ffill prev (c # cs) =
     (if is_missing c then (case prev of None \<Rightarrow> c | Some p \<Rightarrow> p) # ffill prev cs
      else c # ffill (Some c) cs)"

definition price_columns :: "string list" where
  "price_columns = [''open'', ''high'', ''low'', ''close'']"

definition fill_missing :: "frame \<Rightarrow> exn + frame" where
  "fill_missing df =
     (if df_empty df then Inr df
      else if \<not> set price_columns \<subseteq> set (columns df) then Inl KeyError
      else Inr (foldl (\<lambda>d col. assign col (ffill None (map (\<lambda>r. zero_to_none (r col)) (rows df))) d)
                  df price_columns))"

section \<open>Numeric series\<close>

text \<open>Sequencing of computations that may raise: the first exception wins.\<close>

definition bind_exn :: "exn + 'a \<Rightarrow> ('a \<Rightarrow> exn + 'b) \<Rightarrow> exn + 'b" where
  "bind_exn m f = (case m of Inl e \<Rightarrow> Inl e | Inr v \<Rightarrow> f v)"

text \<open>
  A numeric column as a list of floats: \<open>None\<close> reads as not-a-number, and arithmetic on a
  column that holds a string raises.
\<close>

fun as_float :: "cell \<Rightarrow> fl option" where
  "as_float (Num x) = Some x"
| "as_float NoneC = Some NaN"
| "as_float (Str s) = None"

definition numeric_column :: "frame \<Rightarrow> string \<Rightarrow> exn + fl list" where
  "numeric_column df name =
     bind_exn (column df name)
       (\<lambda>cs. if list_all (\<lambda>c. as_float c \<noteq> None) cs then Inr (map (\<lambda>c. the (as_float c)) cs)
              else Inl TypeError)"

definition assign_floats :: "string \<Rightarrow> fl list \<Rightarrow> frame \<Rightarrow> frame" where
  "assign_floats name xs df = assign name (map Num xs) df"

text \<open>\<open>shift(1)\<close>, \<open>diff()\<close>, \<open>pct_change()\<close>, \<open>clip\<close>, \<open>replace\<close> and \<open>where\<close> on a series.\<close>

definition shift1 :: "fl list \<Rightarrow> fl list" where
  "shift1 xs = take (length xs) (NaN # xs)"

definition diff :: "fl list \<Rightarrow> fl list" where
  "diff xs = map (\<lambda>(x, p). fl_sub x p) (zip xs (shift1 xs))"

definition pct_change :: "fl list \<Rightarrow> fl list" where
  "pct_change xs = map (\<lambda>(x, p). fl_sub (fl_div x p) (Fin 1)) (zip xs (shift1 xs))"

definition clip_lower :: "fl \<Rightarrow> fl \<Rightarrow> fl" where
  "clip_lower lo x = (if fl_lt x lo then lo else x)"

definition clip_upper :: "fl \<Rightarrow> fl \<Rightarrow> fl" where
  "clip_upper hi x = (if fl_lt hi x then hi else x)"

definition replace_value :: "fl \<Rightarrow> fl \<Rightarrow> fl list \<Rightarrow> fl list" where
  "replace_value old new xs = map (\<lambda>x. if fl_eq x old then new else x) xs"

text \<open>
  \<open>rolling(window=p, min_periods=1)\<close>: the window at row \<open>i\<close> is the last \<open>p\<close> values up to
  and including row \<open>i\<close>; an aggregate takes the values of the window that are not
  not-a-number and is itself not-a-number when there are too few. pandas refuses a window
  below 1.
\<close>

definition window :: "nat \<Rightarrow> nat \<Rightarrow> fl list \<Rightarrow> fl list" where
  "window p i xs = drop (Suc i - p) (take (Suc i) xs)"

definition observed :: "fl list \<Rightarrow> fl list" where
  "observed w = filter (\<lambda>x. x \<noteq> NaN) w"

definition fl_sum :: "fl list \<Rightarrow> fl" where
  "fl_sum xs = foldl fl_add (Fin 0) xs"

definition mean :: "fl list \<Rightarrow> fl" where
  "mean w = (if w = [] then NaN else fl_div (fl_sum w) (Fin (real (length w))))"

text \<open>The sample standard deviation (\<open>ddof=1\<close>): undefined for fewer than two values.\<close>

definition sample_std :: "fl list \<Rightarrow> fl" where
  "sample_std w =
     (if length w < 2 then NaN
      else let m = mean w
           in fl_sqrt (fl_div (fl_sum (map (\<lambda>x. fl_mul (fl_sub x m) (fl_sub x m)) w))
                              (Fin (real (length w - 1)))))"

definition fl_min :: "fl list \<Rightarrow> fl" where
  "fl_min w = (if w = [] then NaN else foldl (\<lambda>a x. if fl_lt x a then x else a) (hd w) (tl w))"

definition fl_max :: "fl list \<Rightarrow> fl" where
  "fl_max w = (if w = [] then NaN else foldl (\<lambda>a x. if fl_lt a x then x else a) (hd w) (tl w))"

definition rolling :: "(fl list \<Rightarrow> fl) \<Rightarrow> int \<Rightarrow> fl list \<Rightarrow> exn + fl list" where
  "rolling agg p xs =
     (if p < 1 then Inl ValueError
      else Inr (map (\<lambda>i. agg (observed (window (nat p) i xs))) [0..<length xs]))"

text \<open>
  \<open>ewm(alpha, adjust=False).mean()\<close>: the first observation starts the average; each later
  observation \<open>x\<close> turns the average \<open>y\<close> into \<open>(w y + \<alpha> x) / (w + \<alpha>)\<close>, where the weight \<open>w\<close>
  of the old average is \<open>1 - \<alpha>\<close> decayed once more for every missing value in between; a
  missing value repeats the average. The state is the average and the weight.
\<close>

fun ewm_from :: "real \<Rightarrow> fl \<Rightarrow> real \<Rightarrow> fl list \<Rightarrow> fl list" where
  "ewm_from \<alpha> y w [] = []"
| "ewm_from \<alpha> y w (x # xs) =
     (if y = NaN then x # ewm_from \<alpha> x 1 xs
      else if x = NaN then y # ewm_from \<alpha> y (w * (1 - \<alpha>)) xs
      else let w' = w * (1 - \<alpha>);
               y' = fl_div (fl_add (fl_mul (Fin w') y) (fl_mul (Fin \<alpha>) x)) (Fin (w' + \<alpha>))
           in y' # ewm_from \<alpha> y' 1 xs)"

definition ewm_mean :: "real \<Rightarrow> fl list \<Rightarrow> fl list" where
  "ewm_mean \<alpha> xs = ewm_from \<alpha> NaN 1 xs"

definition ewm_span :: "int \<Rightarrow> fl list \<Rightarrow> exn + fl list" where
  "ewm_span n xs =
     (if n < 1 then Inl ValueError else Inr (ewm_mean (2 / (real_of_int n + 1)) xs))"

definition ewm_com :: "int \<Rightarrow> fl list \<Rightarrow> exn + fl list" where
  "ewm_com c xs =
     (if c < 0 then Inl ValueError else Inr (ewm_mean (1 / (1 + real_of_int c)) xs))"

text \<open>\<open>str(n)\<close> for an integer, as used in the column names \<open>MA5\<close>, \<open>RSI14\<close> and so on.\<close>

function str_nat :: "nat \<Rightarrow> string" where
  "str_nat n = (if n < 10 then [digit n] else str_nat (n div 10) @ [digit n])"
  by pat_completeness auto
termination
  by (relation "measure id") auto

definition str_int :: "int \<Rightarrow> string" where
  "str_int n = (if n < 0 then ''-'' @ str_nat (nat (- n)) else str_nat (nat n))"

text \<open>
  \<open>ProcessingLayer.add_basic_metrics\<close>: the close-to-close change, the percentage change
  (recomputed only when the column is absent or zero throughout) and the amplitude.
\<close>

definition all_zero :: "cell list \<Rightarrow> bool" where
  "all_zero cs = list_all (\<lambda>c. case c of Num x \<Rightarrow> fl_eq x (Fin 0) | _ \<Rightarrow> False) cs"

definition add_basic_metrics :: "frame \<Rightarrow> exn + frame" where
  "add_basic_metrics df =
     (if df_empty df \<or> ''close'' \<notin> set (columns df) then Inr df
      else
        bind_exn (numeric_column df ''close'') (\<lambda>close.
          let df1 = assign_floats ''change'' (map round4 (diff close)) df;
              df2 = (if ''pct_chg'' \<notin> set (columns df1)
                        \<or> all_zero (map (\<lambda>r. r ''pct_chg'') (rows df1))
                     then assign_floats ''pct_chg''
                            (map (\<lambda>x. round4 (fl_mul x (Fin 100))) (pct_change close)) df1
                     else df1)
          in if ''high'' \<in> set (columns df2) \<and> ''low'' \<in> set (columns df2) then
               bind_exn (numeric_column df2 ''high'') (\<lambda>high.
               bind_exn (numeric_column df2 ''low'') (\<lambda>low.
                 let denominator = map (\<lambda>(p, c). if \<not> fl_eq p (Fin 0) then p else c)
                                     (zip (shift1 close) close)
                 in Inr (assign_floats ''amplitude''
                           (map (\<lambda>((h, l), d). round4 (fl_mul (fl_div (fl_sub h l) d) (Fin 100)))
                              (zip (zip high low) denominator)) df2)))
             else Inr df2))"

section \<open>The analysis layer (layers/analysis.py)\<close>

text \<open>\<open>periods or default\<close>: the default list when \<open>periods\<close> is \<open>None\<close> or empty.\<close>

definition periods_or :: "int list option \<Rightarrow> int list \<Rightarrow> int list" where
  "periods_or periods dflt = (case periods of None \<Rightarrow> dflt | Some ps \<Rightarrow> if ps = [] then dflt else ps)"

fun ma_loop :: "frame \<Rightarrow> int list \<Rightarrow> exn + frame" where
  "ma_loop df [] = Inr df"
| "ma_loop df (p # ps) =
     bind_exn (numeric_column df ''close'') (\<lambda>close.
     bind_exn (rolling mean p close) (\<lambda>m.
       ma_loop (assign_floats (''MA'' @ str_int p) (map round4 m) df) ps))"

definition add_ma :: "frame \<Rightarrow> int list option \<Rightarrow> exn + frame" where
  "add_ma df periods =
     (if df_empty df then Inr df else ma_loop df (periods_or periods [5, 10, 20, 60]))"

fun ema_loop :: "frame \<Rightarrow> int list \<Rightarrow> exn + frame" where
  "ema_loop df [] = Inr df"
| "ema_loop df (p # ps) =
     bind_exn (numeric_column df ''close'') (\<lambda>close.
     bind_exn (ewm_span p close) (\<lambda>m.
       ema_loop (assign_floats (''EMA'' @ str_int p) (map round4 m) df) ps))"

definition add_ema :: "frame \<Rightarrow> int list option \<Rightarrow> exn + frame" where
  "add_ema df periods =
     (if df_empty df then Inr df else ema_loop df (periods_or periods [12, 26]))"

definition add_macd :: "frame \<Rightarrow> int \<Rightarrow> int \<Rightarrow> int \<Rightarrow> exn + frame" where
  "add_macd df fast slow signal =
     (if df_empty df then Inr df
      else
        bind_exn (numeric_column df ''close'') (\<lambda>close.
        bind_exn (ewm_span fast close) (\<lambda>ema_fast.
        bind_exn (ewm_span slow close) (\<lambda>ema_slow.
          let dif = map (\<lambda>(f, s). round4 (fl_sub f s)) (zip ema_fast ema_slow)
          in bind_exn (ewm_span signal dif) (\<lambda>m.
               let dea = map round4 m;
                   hist = map (\<lambda>(a, b). round4 (fl_mul (Fin 2) (fl_sub a b))) (zip dif dea)
               in Inr (assign_floats ''MACD_HIST'' hist
                        (assign_floats ''MACD_DEA'' dea
                          (assign_floats ''MACD_DIF'' dif df))))))))"

text \<open>
  The RSI of one row from the rolling averages of gains and losses: \<open>rs\<close> is the gain over
  the loss with a zero loss replaced by infinity, and the value is \<open>100 - 100 / (1 + rs)\<close>.
\<close>

definition rsi_value :: "fl \<Rightarrow> fl \<Rightarrow> fl" where
  "rsi_value gain loss =
     (let rs = fl_div gain (if fl_eq loss (Fin 0) then PInf else loss)
      in round4 (fl_sub (Fin 100) (fl_div (Fin 100) (fl_add (Fin 1) rs))))"

fun rsi_loop :: "frame \<Rightarrow> fl list \<Rightarrow> int list \<Rightarrow> exn + frame" where
  "rsi_loop df delta [] = Inr df"
| "rsi_loop df delta (p # ps) =
     bind_exn (rolling mean p (map (clip_lower (Fin 0)) delta)) (\<lambda>gain.
     bind_exn (rolling mean p (map (\<lambda>d. fl_neg (clip_upper (Fin 0) d)) delta)) (\<lambda>loss.
       rsi_loop (assign_floats (''RSI'' @ str_int p)
                   (map (\<lambda>(g, l). rsi_value g l) (zip gain loss)) df) delta ps))"

definition add_rsi :: "frame \<Rightarrow> int list option \<Rightarrow> exn + frame" where
  "add_rsi df periods =
     (if df_empty df then Inr df
      else bind_exn (numeric_column df ''close'') (\<lambda>close.
             rsi_loop df (diff close) (periods_or periods [6, 14])))"

definition add_bollinger :: "frame \<Rightarrow> int \<Rightarrow> fl \<Rightarrow> exn + frame" where
  "add_bollinger df period std_dev =
     (if df_empty df then Inr df
      else
        bind_exn (numeric_column df ''close'') (\<lambda>close.
        bind_exn (rolling mean period close) (\<lambda>mid.
        bind_exn (rolling sample_std period close) (\<lambda>std.
          Inr (assign_floats ''BOLL_LOWER''
                 (map (\<lambda>(m, s). round4 (fl_sub m (fl_mul std_dev s))) (zip mid std))
                 (assign_floats ''BOLL_UPPER''
                    (map (\<lambda>(m, s). round4 (fl_add m (fl_mul std_dev s))) (zip mid std))
                    (assign_floats ''BOLL_MID'' (map round4 mid) df)))))))"

definition has_hlc :: "frame \<Rightarrow> bool" where
  "has_hlc df = list_all (\<lambda>c. c \<in> set (columns df)) [''high'', ''low'', ''close'']"

definition add_kdj :: "frame \<Rightarrow> int \<Rightarrow> int \<Rightarrow> exn + frame" where
  "add_kdj df period signal =
     (if df_empty df \<or> \<not> has_hlc df then Inr df
      else
        bind_exn (numeric_column df ''low'') (\<lambda>low.
        bind_exn (rolling fl_min period low) (\<lambda>low_min.
        bind_exn (numeric_column df ''high'') (\<lambda>high.
        bind_exn (rolling fl_max period high) (\<lambda>high_max.
        bind_exn (numeric_column df ''close'') (\<lambda>close.
          let denom = replace_value (Fin 0) (Fin 1)
                        (map (\<lambda>(h, l). fl_sub h l) (zip high_max low_min));
              rsv = map (\<lambda>((c, l), d). fl_mul (fl_div (fl_sub c l) d) (Fin 100))
                      (zip (zip close low_min) denom)
          in bind_exn (ewm_com (signal - 1) rsv) (\<lambda>k0.
             let k = map round4 k0
             in bind_exn (ewm_com (signal - 1) k) (\<lambda>d0.
                let d = map round4 d0;
                    j = map (\<lambda>(a, b). round4 (fl_sub (fl_mul (Fin 3) a) (fl_mul (Fin 2) b)))
                          (zip k d)
                in Inr (assign_floats ''KDJ_J'' j
                         (assign_floats ''KDJ_D'' d
                           (assign_floats ''KDJ_K'' k df)))))))))))"

definition add_atr :: "frame \<Rightarrow> int \<Rightarrow> exn + frame" where
  "add_atr df period =
     (if df_empty df \<or> \<not> has_hlc df then Inr df
      else
        bind_exn (numeric_column df ''close'') (\<lambda>close.
        bind_exn (numeric_column df ''high'') (\<lambda>high.
        bind_exn (numeric_column df ''low'') (\<lambda>low.
          let tr = map (\<lambda>((h, l), pc).
                          fl_max (observed [fl_sub h l, fl_abs (fl_sub h pc), fl_abs (fl_sub l pc)]))
                     (zip (zip high low) (shift1 close))
          in bind_exn (rolling mean period tr) (\<lambda>atr.
               Inr (assign_floats (''ATR'' @ str_int period) (map round4 atr) df))))))"

definition compute_all :: "frame \<Rightarrow> exn + frame" where
  "compute_all df =
     bind_exn (add_ma df None) (\<lambda>df.
     bind_exn (add_ema df None) (\<lambda>df.
     bind_exn (add_macd df 12 26 9) (\<lambda>df.
     bind_exn (add_rsi df None) (\<lambda>df.
     bind_exn (add_bollinger df 20 (Fin 2)) (\<lambda>df.
     bind_exn (add_kdj df 9 3) (\<lambda>df.
     add_atr df 14))))))"

section \<open>The stock service (services/stock_service.py)\<close>

text \<open>The records handed to the cache and to the caller, as a JSON value.\<close>

fun cell_to_json :: "cell \<Rightarrow> json" where
  "cell_to_json (Num x) = JNum x"
| "cell_to_json (Str s) = JStr s"
| "cell_to_json NoneC = JNull"

definition records_to_json :: "pydict list \<Rightarrow> json" where
  "records_to_json records =
     JList (map (\<lambda>d. JDict (map (\<lambda>(k, c). (k, cell_to_json c)) d)) records)"

record service =
  cache_env :: env
  sources :: acq_env
  pd :: pandas
  STOCK_DATA_CACHE_TTL :: int

text \<open>What a request does, in order: backend calls of the cache, provider calls, and the
  Normalizer being invoked.\<close>

datatype event = CacheCall call | ProviderCall string | NormalizerCall

definition acquire ::
  "acq_env \<Rightarrow> string \<Rightarrow> string \<Rightarrow> string \<Rightarrow> string \<Rightarrow> (exn + pydict list) \<times> string list" where
  "acquire a market symbol start_date end_date =
     (if market = ''CN'' then get_china_stock_history a symbol start_date end_date
      else if market = ''HK'' then get_hk_stock_history a symbol start_date end_date
      else if market = ''US'' then get_us_stock_history a symbol start_date end_date
      else (Inr [], []))"

text \<open>The processing pipeline applied to non-empty raw records.\<close>

definition process :: "pandas \<Rightarrow> pydict list \<Rightarrow> string \<Rightarrow> string \<Rightarrow> exn + pydict list" where
  "process P raw start_date end_date =
     bind_exn (filter_date_range (normalize_ohlcv P raw) (Some start_date) (Some end_date)) (\<lambda>df.
     bind_exn (fill_missing df) (\<lambda>df.
     bind_exn (add_basic_metrics df) (\<lambda>df.
       Inr (to_records df))))"

text \<open>
  \<open>StockService.get_stock_history\<close>: the returned value (or the exception that reaches the
  caller), the cache afterwards, and the events.
\<close>

definition lookup_cached ::
  "service \<Rightarrow> cache_state \<Rightarrow> string list \<Rightarrow> bool \<Rightarrow> (exn + json) \<times> cache_state \<times> event list" where
  "lookup_cached S s parts force_refresh =
     (if force_refresh then (Inr JNull, s, [])
      else case cache_get (cache_env S) s ''history'' parts of
             (r, s1, cs) \<Rightarrow> (r, s1, map CacheCall cs))"

definition get_stock_history ::
  "service \<Rightarrow> cache_state \<Rightarrow> string \<Rightarrow> string \<Rightarrow> string \<Rightarrow> string \<Rightarrow> bool
     \<Rightarrow> (exn + json) \<times> cache_state \<times> event list" where
  "get_stock_history S s symbol start_date end_date market force_refresh =
     (let parts = [market, symbol, start_date, end_date] in
      case lookup_cached S s parts force_refresh of
        (Inl x, s1, ev1) \<Rightarrow> (Inl x, s1, ev1)
      | (Inr cached, s1, ev1) \<Rightarrow>
          if cached \<noteq> JNull then (Inr cached, s1, ev1)
          else
            (case acquire (sources S) market symbol start_date end_date of
               (Inl x, called) \<Rightarrow> (Inl x, s1, ev1 @ map ProviderCall called)
             | (Inr raw, called) \<Rightarrow>
                 if raw = [] then (Inr (JList []), s1, ev1 @ map ProviderCall called)
                 else
                   (case process (pd S) raw start_date end_date of
                      Inl x \<Rightarrow>
                        (Inl x, s1, ev1 @ map ProviderCall called @ [NormalizerCall])
                    | Inr records \<Rightarrow>
                        (case cache_set (cache_env S) s1 (records_to_json records) ''history''
                                parts (Some (STOCK_DATA_CACHE_TTL S)) of
                           (Inl x, s2, cs) \<Rightarrow>
                             (Inl x, s2,
                              ev1 @ map ProviderCall called @ [NormalizerCall] @ map CacheCall cs)
                         | (Inr u, s2, cs) \<Rightarrow>
                             (Inr (records_to_json records), s2,
                              ev1 @ map ProviderCall called @ [NormalizerCall]
                                @ map CacheCall cs)))))"

text \<open>
  A stand-in for pandas in worked examples. It reads a string of the form \<open>YYYY-MM-DD\<close>
  that names a day of the calendar within the range of a nanosecond timestamp (1677-09-22
  to 2262-04-11), and reads a finite number as nanoseconds since the epoch, as pandas does
  with the \<open>0.0\<close> that fills a missing date column; every other cell is unreadable to
  it, and it reads no number out of a string. It is meant for a column of such date strings
  and of strings pandas cannot read either, and for a column of whole numbers.
\<close>

definition digit_value :: "char \<Rightarrow> nat option" where
  "digit_value c =
     (let n = of_char c :: nat in if 48 \<le> n \<and> n \<le> 57 then Some (n - 48) else None)"

fun number_of_digits :: "nat \<Rightarrow> string \<Rightarrow> nat option" where
  "number_of_digits acc [] = Some acc"
| "number_of_digits acc (c # cs) =
     (case digit_value c of None \<Rightarrow> None | Some d \<Rightarrow> number_of_digits (10 * acc + d) cs)"

definition leap_year :: "nat \<Rightarrow> bool" where
  "leap_year y = (y mod 4 = 0 \<and> (y mod 100 \<noteq> 0 \<or> y mod 400 = 0))"

definition days_in_month :: "nat \<Rightarrow> nat \<Rightarrow> nat" where
  "days_in_month y m =
     (if m = 2 then (if leap_year y then 29 else 28)
      else if m = 4 \<or> m = 6 \<or> m = 9 \<or> m = 11 then 30 else 31)"

text \<open>Days since 1970-01-01 of a calendar day, and back (proleptic Gregorian calendar).\<close>

definition days_from_civil :: "int \<Rightarrow> int \<Rightarrow> int \<Rightarrow> int" where
  "days_from_civil y m d =
     (let y' = (if m \<le> 2 then y - 1 else y);
          era = y' div 400;
          yoe = y' - era * 400;
          doy = (153 * (if 2 < m then m - 3 else m + 9) + 2) div 5 + d - 1;
          doe = yoe * 365 + yoe div 4 - yoe div 100 + doy
      in era * 146097 + doe - 719468)"

definition civil_from_days :: "int \<Rightarrow> int \<times> int \<times> int" where
  "civil_from_days z =
     (let z' = z + 719468;
          era = z' div 146097;
          doe = z' - era * 146097;
          yoe = (doe - doe div 1460 + doe div 36524 - doe div 146096) div 365;
          doy = doe - (365 * yoe + yoe div 4 - yoe div 100);
          mp = (5 * doy + 2) div 153;
          d = doy - (153 * mp + 2) div 5 + 1;
          m = (if mp < 10 then mp + 3 else mp - 9)
      in ((if m \<le> 2 then yoe + era * 400 + 1 else yoe + era * 400), m, d))"

text \<open>The nanoseconds a pandas timestamp can hold, and the timestamp of such a count.\<close>

definition ns_per_day :: int where
  "ns_per_day = 86400000000000"

definition in_timestamp_range :: "int \<Rightarrow> bool" where
  "in_timestamp_range ns = (- 9223372036854775807 \<le> ns \<and> ns \<le> 9223372036854775807)"

definition timestamp_of_ns :: "int \<Rightarrow> timestamp option" where
  "timestamp_of_ns ns =
     (if in_timestamp_range ns then
        (case civil_from_days (ns div ns_per_day) of
           (y, m, d) \<Rightarrow>
             Some \<lparr>ts_year = nat y, ts_month = nat m, ts_day = nat d,
                   ts_nanos = nat (ns mod ns_per_day)\<rparr>)
      else None)"

definition iso_date :: "cell list \<Rightarrow> cell \<Rightarrow> timestamp option" where
  "iso_date col c =
     (case c of
        Str s \<Rightarrow>
          if length s = 10 \<and> s ! 4 = CHR ''-'' \<and> s ! 7 = CHR ''-'' then
            (case (number_of_digits 0 (take 4 s), number_of_digits 0 (take 2 (drop 5 s)),
                   number_of_digits 0 (drop 8 s)) of
               (Some y, Some m, Some d) \<Rightarrow>
                 if 1 \<le> m \<and> m \<le> 12 \<and> 1 \<le> d \<and> d \<le> days_in_month y m
                 then timestamp_of_ns (days_from_civil (int y) (int m) (int d) * ns_per_day)
                 else None
             | _ \<Rightarrow> None)
          else None
      | Num (Fin x) \<Rightarrow> timestamp_of_ns (if 0 \<le> x then \<lfloor>x\<rfloor> else \<lceil>x\<rceil>)
      | _ \<Rightarrow> None)"

definition iso_pandas :: pandas where
  "iso_pandas = \<lparr>to_datetime = iso_date, parse_number = (\<lambda>s. None)\<rparr>"




text \<open>Four raw records for a worked example: out of order, one date twice, one unreadable.\<close>

definition mixed_records :: "pydict list" where
  "mixed_records =
     [[(''date'', Str ''2024-01-02''), (''close'', Num (Fin 10))],
      [(''date'', Str ''2024-01-01''), (''close'', Num (Fin 9))],
      [(''date'', Str ''yesterday''), (''close'', Num (Fin 5))],
      [(''date'', Str ''2024-01-02''), (''close'', Num (Fin 11))]]"

text \<open>A frame with the single column \<open>close\<close>, for worked examples.\<close>

definition closes_frame :: "real list \<Rightarrow> frame" where
  "closes_frame xs =
     \<lparr>columns = [''close''],
      rows = map (\<lambda>x c. if c = ''close'' then Num (Fin x) else Num NaN) xs\<rparr>"

text \<open>
  The values a rolling standard deviation can take: a non-negative number, infinity or
  not-a-number.
\<close>

definition std_like :: "fl \<Rightarrow> bool" where
  "std_like s = (case s of Fin x \<Rightarrow> 0 \<le> x | PInf \<Rightarrow> True | NInf \<Rightarrow> False | NaN \<Rightarrow> True)"

section \<open>Verified properties: cache keys\<close>

lemma length_le_bytes: "length (le_bytes k w) = k"
  by (simp add: le_bytes_def)

lemma length_hexdigest: "length (hexdigest bs) = 2 * length bs"
  by (induction bs) (simp_all add: hexdigest_def)

lemma length_md5_digest: "length (md5_digest bs) = 16"
  by (simp add: md5_digest_def length_le_bytes split: prod.splits)

lemma length_md5_hexdigest: "length (md5_hexdigest s) = 32"
  by (simp add: md5_hexdigest_def length_hexdigest length_md5_digest)

text \<open>The digest agrees with the RFC 1321 test vector for \<open>abc\<close>.\<close>

lemma md5_hexdigest_abc: "md5_hexdigest ''abc'' = ''900150983cd24fb0d6963f7d28e17f72''"
  by code_simp

lemma key_000001: "make_key ''history'' [''CN'', ''000001''] = ''history:CN:000001''"
  by (simp add: make_key_def)

lemma path_000001:
  "file_path ''./cache'' ''history:CN:000001'' = ''./cache/history_CN_000001.json''"
  by (simp add: file_path_def replace_char_def path_join_def)

text \<open>
  Claim C3, as amended. \<open>make_key\<close> is a function of the namespace and the parts alone, so
  equal inputs give equal keys. When the joined string is longer than 200 characters the
  key is the namespace, a colon and the 32-character digest of the joined string;
  otherwise it is the joined string itself. The key is therefore never longer than the
  larger of 200 and the namespace's length plus 33, which is at most 233 for a namespace
  of at most 200 characters.
\<close>

theorem make_key_length:
  "(200 < length (join '':'' (ns # parts)) \<longrightarrow>
      make_key ns parts = ns @ '':'' @ md5_hexdigest (join '':'' (ns # parts)) \<and>
      length (make_key ns parts) = length ns + 33)
   \<and> (length (join '':'' (ns # parts)) \<le> 200 \<longrightarrow> make_key ns parts = join '':'' (ns # parts))
   \<and> length (make_key ns parts) \<le> max 200 (length ns + 33)
   \<and> (length ns \<le> 200 \<longrightarrow> length (make_key ns parts) \<le> 233)"
  by (auto simp: make_key_def Let_def length_md5_hexdigest)

text \<open>
  The bound of claim C3 as it was stated (a fixed constant near 200 plus the digest length,
  whatever the input) fails: the namespace is kept in full in front of the digest, so a
  namespace of 300 characters and no parts gives a key of 333 characters.
\<close>

theorem make_key_counterexample:
  "length (make_key (replicate 300 CHR ''n'') []) = 333"
  by (simp add: make_key_def Let_def length_md5_hexdigest)

theorem make_key_length_witness:
  "200 < length (join '':'' (''ns'' # replicate 50 ''part''))
   \<and> length (make_key ''ns'' (replicate 50 ''part'')) = 35
   \<and> length (join '':'' [''a'', ''b'', ''c'']) \<le> 200
   \<and> make_key ''a'' [''b'', ''c''] = ''a:b:c''
   \<and> length ''ns'' \<le> (200::nat)
   \<and> length (make_key ''ns'' (replicate 50 ''part'')) \<le> 233"
proof -
  have long: "length (join '':'' (''ns'' # replicate 50 ''part'')) = 252"
    by code_simp
  have short: "join '':'' [''a'', ''b'', ''c''] = ''a:b:c''"
    by simp
  show ?thesis
    using make_key_length [of "''ns''" "replicate 50 ''part''"]
      make_key_length [of "''a''" "[''b'', ''c'']"] long short
    by (simp add: length_md5_hexdigest)
qed

section \<open>Verified properties: the cache\<close>

lemma set_L1_success:
  "redis s = Some r \<Longrightarrow> redis_setex_exn e = None \<Longrightarrow>
     set_L1 e s key ttl txt
       = (True, s\<lparr>redis := Some (r(key \<mapsto> (txt, now e + real_of_int ttl)))\<rparr>, [RedisSetex key])"
  by (simp add: set_L1_def)

lemma set_L1_passes:
  "redis s = None \<or> redis_setex_exn e \<noteq> None \<Longrightarrow>
     set_L1 e s key ttl txt = (False, s, if redis s = None then [] else [RedisSetex key])"
  by (auto simp: set_L1_def split: option.splits)

lemma set_L2_connected:
  "mongo s = Some docs \<Longrightarrow> set_L2 e s key ttl v = (Inl NotImplementedError, s, [])"
  by (simp add: set_L2_def database_truth_def)

lemma set_L2_absent: "mongo s = None \<Longrightarrow> set_L2 e s key ttl v = (Inr False, s, [])"
  by (simp add: set_L2_def)

text \<open>
  What holds of \<open>set\<close>. When the tier-1 write goes through it is the only call, the entry
  is stored with its expiry, and tiers 2 and 3 are as they were. When tier 1 does not take
  the write and there is no document store, the call returns normally, tiers 1 and 2 are
  as they were, only tier-3 calls follow, and if none of them raises the file holds the
  value with its expiry. No call is ever made to tier 2.
\<close>

lemma cache_set_tier1_success:
  "redis s = Some r \<Longrightarrow> redis_setex_exn e = None \<Longrightarrow>
     cache_set e s v namespace parts ttl_arg
       = (Inr (),
          s\<lparr>redis := Some (r(make_key namespace parts \<mapsto>
               (json_dumps v,
                now e + real_of_int (case ttl_arg of None \<Rightarrow> CACHE_TTL e | Some t \<Rightarrow> t))))\<rparr>,
          [RedisSetex (make_key namespace parts)])"
  by (simp add: cache_set_def Let_def set_L1_success)

lemma cache_set_tier3_fallback:
  "mongo s = None \<Longrightarrow> redis s = None \<or> redis_setex_exn e \<noteq> None \<Longrightarrow>
     case cache_set e s v namespace parts ttl_arg of
       (r, s', cs) \<Rightarrow>
         r = Inr () \<and> redis s' = redis s \<and> mongo s' = None
         \<and> MakeDirs (CACHE_DIR e) \<in> set cs
         \<and> (\<forall>c \<in> set cs. tier_of c = 3 \<or> c = RedisSetex (make_key namespace parts))
         \<and> (makedirs_exn e = None \<and> open_write_exn e = None \<and> dump_exn e = None \<longrightarrow>
              files s' = (files s)(file_path (CACHE_DIR e) (make_key namespace parts) \<mapsto>
                json_dumps (JDict [(''value'', v),
                  (''expires_at'',
                   JNum (Fin (now e + real_of_int
                     (case ttl_arg of None \<Rightarrow> CACHE_TTL e | Some t \<Rightarrow> t))))])))"
  by (auto simp: cache_set_def Let_def set_L1_passes set_L2_absent set_L3_def
      split: option.splits)

lemma cache_set_no_tier2_call:
  "\<forall>c \<in> set (snd (snd (cache_set e s v namespace parts ttl_arg))). tier_of c \<noteq> 2"
  by (auto simp: cache_set_def Let_def set_L1_def set_L2_def set_L3_def database_truth_def
      split: option.splits)

text \<open>
  Claim C1 has the tier-2 write attempted when tier 1 is unavailable or its write fails,
  and exactly the highest available tier written. The code does not get that far: whenever
  the document store is connected and tier 1 does not take the write (it is absent, or its
  write raised), \<open>set\<close> raises \<open>NotImplementedError\<close> to its caller at the test
  \<open>if db:\<close>, which stands outside the \<open>try\<close> block. No call is made to tier 2 or
  tier 3 and every tier is left as it was.
\<close>

theorem cache_set_raises_before_tier2:
  "mongo s = Some docs \<Longrightarrow> redis s = None \<or> redis_setex_exn e \<noteq> None \<Longrightarrow>
     cache_set e s v namespace parts ttl_arg
       = (Inl NotImplementedError, s,
          if redis s = None then [] else [RedisSetex (make_key namespace parts)])"
  by (simp add: cache_set_def Let_def set_L1_passes set_L2_connected)

theorem cache_set_raises_before_tier2_witness:
  "mongo all_tiers = Some []
   \<and> redis_setex_exn (quiet_env\<lparr>redis_setex_exn := Some ConnectionError\<rparr>) \<noteq> None
   \<and> cache_set (quiet_env\<lparr>redis_setex_exn := Some ConnectionError\<rparr>) all_tiers (JStr ''v'')
         ''history'' [''CN'', ''000001''] None
       = (Inl NotImplementedError, all_tiers, [RedisSetex ''history:CN:000001''])
   \<and> mongo (all_tiers\<lparr>redis := None\<rparr>) = Some []
   \<and> redis (all_tiers\<lparr>redis := None\<rparr>) = None
   \<and> cache_set quiet_env (all_tiers\<lparr>redis := None\<rparr>) (JStr ''v'') ''history''
         [''CN'', ''000001''] (Some 7200)
       = (Inl NotImplementedError, all_tiers\<lparr>redis := None\<rparr>, [])"
  using cache_set_raises_before_tier2 [where e = "quiet_env\<lparr>redis_setex_exn := Some ConnectionError\<rparr>"
          and s = all_tiers and docs = "[]" and v = "JStr ''v''"
          and namespace = "''history''" and parts = "[''CN'', ''000001'']" and ttl_arg = None]
    cache_set_raises_before_tier2 [where e = quiet_env
          and s = "all_tiers\<lparr>redis := None\<rparr>" and docs = "[]" and v = "JStr ''v''"
          and namespace = "''history''" and parts = "[''CN'', ''000001'']"
          and ttl_arg = "Some 7200"]
  by (simp add: key_000001 all_tiers_def quiet_env_def)

text \<open>
  Claim C10. The map from logical keys to tier-3 file paths is not injective: the keys
  \<open>history:CN:a:b\<close> and \<open>history:CN:a_b\<close> differ and have the same path in every cache
  directory, and a value written to tier 3 under the first is what a read under the second
  returns.
\<close>

theorem file_path_not_injective:
  "make_key ''history'' [''CN'', ''a:b''] \<noteq> make_key ''history'' [''CN'', ''a_b'']
   \<and> file_path d (make_key ''history'' [''CN'', ''a:b''])
       = file_path d (make_key ''history'' [''CN'', ''a_b''])
   \<and> (case cache_set quiet_env files_only (JStr ''payload'') ''history'' [''CN'', ''a:b''] None of
        (r, s', cs) \<Rightarrow>
          fst (cache_get quiet_env s' ''history'' [''CN'', ''a_b'']) = Inr (JStr ''payload''))"
  by (simp add: Let_def make_key_def file_path_def replace_char_def path_join_def
      cache_set_def set_L1_def set_L2_def set_L3_def cache_get_def get_L1_def get_L2_def
      get_L3_def quiet_env_def files_only_def json_dumps_def)

lemma get_L1_calls:
  "snd (get_L1 e s key) = (if redis s = None then [] else [RedisGet key])"
  by (auto simp: get_L1_def split: option.splits sum.splits)

lemma get_L1_redis_None: "redis s = None \<Longrightarrow> get_L1 e s key = (None, [])"
  by (simp add: get_L1_def)

lemma get_L1_raises:
  "redis_get_exn e \<noteq> None \<Longrightarrow> fst (get_L1 e s key) = None"
  by (auto simp: get_L1_def split: option.splits)

lemma get_L1_malformed:
  "redis s = Some rs \<Longrightarrow> rs key = Some (Malformed, t1) \<Longrightarrow> fst (get_L1 e s key) = None"
  by (auto simp: get_L1_def split: option.splits)

lemma get_L1_absent:
  "redis s = Some rs \<Longrightarrow> rs key = None \<Longrightarrow> fst (get_L1 e s key) = None"
  by (auto simp: get_L1_def split: option.splits)

lemma get_L1_hit:
  "redis s = Some rs \<Longrightarrow> redis_get_exn e = None \<Longrightarrow> rs key = Some (Json v, t1) \<Longrightarrow>
   now e < t1 \<Longrightarrow> get_L1 e s key = (Some v, [RedisGet key])"
  by (simp add: get_L1_def)

lemma get_L2_connected:
  "mongo s = Some docs \<Longrightarrow> get_L2 e s key = (Inl NotImplementedError, s, [])"
  by (simp add: get_L2_def database_truth_def)

lemma get_L2_absent: "mongo s = None \<Longrightarrow> get_L2 e s key = (Inr None, s, [])"
  by (simp add: get_L2_def)

lemma get_L3_frame:
  "mongo (fst (snd (get_L3 e s key))) = mongo s \<and> redis (fst (snd (get_L3 e s key))) = redis s"
  by (auto simp: get_L3_def Let_def split: option.splits sum.splits bool.splits)

lemma get_L3_state:
  "fst (snd (get_L3 e s key)) = s
   \<or> fst (snd (get_L3 e s key)) = s\<lparr>files := (files s)(file_path (CACHE_DIR e) key := None)\<rparr>"
  by (auto simp: get_L3_def Let_def split: option.splits sum.splits bool.splits)

lemma get_L3_unreadable:
  "open_read_exn e \<noteq> None \<or> files s (file_path (CACHE_DIR e) key) = Some Malformed \<Longrightarrow>
     fst (get_L3 e s key) = None \<and> fst (snd (get_L3 e s key)) = s"
  by (auto simp: get_L3_def Let_def split: option.splits)

lemma get_L3_no_file:
  "files s (file_path (CACHE_DIR e) key) = None \<Longrightarrow> get_L3 e s key = (None, s, [])"
  by (simp add: get_L3_def Let_def)

lemma get_L3_expired:
  "files s (file_path (CACHE_DIR e) key) = Some (Json (JDict kvs)) \<Longrightarrow>
   map_of kvs ''expires_at'' = Some (JNum (Fin t)) \<Longrightarrow> t \<noteq> 0 \<Longrightarrow> t < now e \<Longrightarrow>
   open_read_exn e = None \<Longrightarrow> remove_exn e = None \<Longrightarrow>
     get_L3 e s key =
       (None, s\<lparr>files := (files s)(file_path (CACHE_DIR e) key := None)\<rparr>,
        [OpenRead (file_path (CACHE_DIR e) key), Remove (file_path (CACHE_DIR e) key)])"
  by (simp add: get_L3_def Let_def)

text \<open>
  What holds of \<open>get\<close>. A value found in tier 1 is returned without a look at the other
  tiers. With no document store the call returns normally whatever the backends do: the
  result is the tier-1 value, else the tier-3 value, else absent; a tier whose read raises
  or whose text cannot be decoded yields no value (lemmas \<open>get_L1_raises\<close>,
  \<open>get_L1_malformed\<close>, \<open>get_L3_unreadable\<close>), an expired file is removed
  (\<open>get_L3_expired\<close>), and nothing else of the cache changes.
\<close>

lemma cache_get_tier1_hit:
  "fst (get_L1 e s (make_key namespace parts)) = Some v \<Longrightarrow>
     cache_get e s namespace parts = (Inr v, s, snd (get_L1 e s (make_key namespace parts)))"
  by (cases "get_L1 e s (make_key namespace parts)") (simp add: cache_get_def Let_def)

lemma cache_get_without_tier2:
  "mongo s = None \<Longrightarrow>
     fst (cache_get e s namespace parts)
       = Inr (case fst (get_L1 e s (make_key namespace parts)) of
                Some v \<Rightarrow> v
              | None \<Rightarrow>
                  (case fst (get_L3 e s (make_key namespace parts)) of
                     Some v \<Rightarrow> v
                   | None \<Rightarrow> JNull))
     \<and> redis (fst (snd (cache_get e s namespace parts))) = redis s
     \<and> mongo (fst (snd (cache_get e s namespace parts))) = None
     \<and> (files (fst (snd (cache_get e s namespace parts))) = files s
        \<or> files (fst (snd (cache_get e s namespace parts)))
             = (files s)(file_path (CACHE_DIR e) (make_key namespace parts) := None))"
  using get_L3_frame [of e s "make_key namespace parts"]
    get_L3_state [of e s "make_key namespace parts"]
  by (auto simp: cache_get_def Let_def get_L2_absent split: prod.splits option.splits)

text \<open>
  Claim C6 has \<open>get\<close> never raise to its caller, and an expired tier-2 entry deleted on
  read. Neither is what the code does once the document store is connected: whenever tier 1
  yields no value (it is absent, its read raises, it lacks the key or holds text that cannot
  be decoded), \<open>get\<close> raises \<open>NotImplementedError\<close> to its caller at the test
  \<open>if db:\<close>, which stands outside the \<open>try\<close> block. Tier 2 is not queried, no expired
  document is deleted, tier 3 is not consulted, and the cache is left as it was.
\<close>

theorem cache_get_raises_before_tier2:
  "mongo s = Some docs \<Longrightarrow> fst (get_L1 e s (make_key namespace parts)) = None \<Longrightarrow>
     cache_get e s namespace parts
       = (Inl NotImplementedError, s,
          if redis s = None then [] else [RedisGet (make_key namespace parts)])"
  using get_L1_calls [of e s "make_key namespace parts"]
  by (cases "get_L1 e s (make_key namespace parts)")
     (simp add: cache_get_def Let_def get_L2_connected)

theorem cache_get_raises_before_tier2_witness:
  "mongo stale_cache = Some [stale_doc]
   \<and> fst (get_L1 quiet_env stale_cache (make_key ''history'' [''CN'', ''000001''])) = None
   \<and> doc_expires_at stale_doc = Some 500 \<and> 500 < now quiet_env
   \<and> cache_get quiet_env stale_cache ''history'' [''CN'', ''000001'']
       = (Inl NotImplementedError, stale_cache, [RedisGet ''history:CN:000001''])
   \<and> mongo (live_cache\<lparr>redis := None\<rparr>) \<noteq> None
   \<and> fst (get_L1 quiet_env (live_cache\<lparr>redis := None\<rparr>)
            (make_key ''history'' [''CN'', ''000001''])) = None
   \<and> cache_get quiet_env (live_cache\<lparr>redis := None\<rparr>) ''history'' [''CN'', ''000001'']
       = (Inl NotImplementedError, live_cache\<lparr>redis := None\<rparr>, [])"
proof -
  have m: "mongo stale_cache = Some [stale_doc]"
    "mongo (live_cache\<lparr>redis := None\<rparr>)
       = Some [\<lparr>doc_key = ''history:CN:000001'', doc_value = JStr ''v2'',
                 doc_expires_at = Some 2000\<rparr>]"
    by (simp_all add: stale_cache_def live_cache_def)
  have r: "redis stale_cache \<noteq> None" "redis (live_cache\<lparr>redis := None\<rparr>) = None"
    by (simp_all add: stale_cache_def)
  have l: "fst (get_L1 quiet_env stale_cache (make_key ''history'' [''CN'', ''000001''])) = None"
    "fst (get_L1 quiet_env (live_cache\<lparr>redis := None\<rparr>)
            (make_key ''history'' [''CN'', ''000001''])) = None"
    by (simp_all add: get_L1_def key_000001 stale_cache_def quiet_env_def)
  have d: "doc_expires_at stale_doc = Some 500" "500 < now quiet_env"
    by (simp_all add: stale_doc_def quiet_env_def)
  have c1: "cache_get quiet_env stale_cache ''history'' [''CN'', ''000001'']
       = (Inl NotImplementedError, stale_cache, [RedisGet ''history:CN:000001''])"
    using cache_get_raises_before_tier2 [where e = quiet_env and s = stale_cache
          and docs = "[stale_doc]" and namespace = "''history''"
          and parts = "[''CN'', ''000001'']", OF m(1) l(1)] r(1)
    by (simp add: key_000001)
  have c2: "cache_get quiet_env (live_cache\<lparr>redis := None\<rparr>) ''history'' [''CN'', ''000001'']
       = (Inl NotImplementedError, live_cache\<lparr>redis := None\<rparr>, [])"
    using cache_get_raises_before_tier2 [where e = quiet_env and s = "live_cache\<lparr>redis := None\<rparr>"
          and namespace = "''history''" and parts = "[''CN'', ''000001'']", OF m(2) l(2)] r(2)
    by simp
  show ?thesis
    using c1 c2 m l d by simp
qed

section \<open>Verified properties: provider failover\<close>

lemma failover_Cons:
  "failover fetch (p # ps) =
     (if wins fetch p then (result_of fetch p, [p])
      else (case failover fetch ps of (r, called) \<Rightarrow> (r, p # called)))"
  by (auto simp: wins_def result_of_def split: sum.splits)

lemma failover_called:
  "snd (failover fetch ps) =
     takeWhile (\<lambda>p. \<not> wins fetch p) ps @ take 1 (dropWhile (\<lambda>p. \<not> wins fetch p) ps)"
  by (induction ps) (simp_all add: failover_Cons case_prod_unfold del: failover.simps(2))

lemma failover_result:
  "fst (failover fetch ps) =
     (case find (wins fetch) ps of None \<Rightarrow> [] | Some p \<Rightarrow> result_of fetch p)"
  by (induction ps) (simp_all add: failover_Cons case_prod_unfold del: failover.simps(2))

lemma failover_all_fail:
  "\<forall>p \<in> set ps. \<not> wins fetch p \<Longrightarrow> failover fetch ps = ([], ps)"
  by (induction ps) (simp_all add: failover_Cons del: failover.simps(2))

lemma distinct_china_providers: "distinct (china_providers a)"
  by (simp add: china_providers_def CHINA_PROVIDER_ORDER_def)

lemma distinct_prefix_first:
  "distinct ps \<Longrightarrow> distinct (takeWhile P ps @ take 1 (dropWhile P ps))"
proof -
  assume d: "distinct ps"
  have "takeWhile P ps @ take 1 (dropWhile P ps) = take (Suc (length (takeWhile P ps))) ps"
    by (induction ps) auto
  then show ?thesis using d by simp
qed

text \<open>
  Claim C4. The candidates of a history fetch are the configured default provider followed
  by the other known providers in the fixed order akshare, tushare, baostock, without
  repetition. They are called in that order, each at most once, up to and including the
  first whose call raises nothing and returns a non-empty list, and that list is the
  result; a provider that raises or returns an empty list is passed over. When no
  candidate wins, every candidate has been called once and the result is the empty list.
  The operation returns normally in every case.
\<close>

theorem china_history_failover:
  "case get_china_stock_history a symbol start_date end_date of
     (r, called) \<Rightarrow>
       let ps = china_providers a;
           fetch = (\<lambda>p. fetch_china_history a p symbol start_date end_date)
       in ps = DEFAULT_CHINA_DATA_SOURCE a
                 # filter (\<lambda>p. p \<noteq> DEFAULT_CHINA_DATA_SOURCE a) [''akshare'', ''tushare'', ''baostock'']
        \<and> distinct ps
        \<and> called = takeWhile (\<lambda>p. \<not> wins fetch p) ps
                     @ take 1 (dropWhile (\<lambda>p. \<not> wins fetch p) ps)
        \<and> distinct called
        \<and> r = Inr (case find (wins fetch) ps of None \<Rightarrow> [] | Some p \<Rightarrow> result_of fetch p)
        \<and> ((\<forall>p \<in> set ps. \<not> wins fetch p) \<longrightarrow> r = Inr [] \<and> called = ps)"
proof -
  let ?ps = "china_providers a"
  let ?fetch = "\<lambda>p. fetch_china_history a p symbol start_date end_date"
  have c: "snd (failover ?fetch ?ps) = takeWhile (\<lambda>p. \<not> wins ?fetch p) ?ps
                     @ take 1 (dropWhile (\<lambda>p. \<not> wins ?fetch p) ?ps)"
    by (rule failover_called)
  have d: "distinct (snd (failover ?fetch ?ps))"
    unfolding c by (rule distinct_prefix_first) (rule distinct_china_providers)
  have r: "fst (failover ?fetch ?ps) =
     (case find (wins ?fetch) ?ps of None \<Rightarrow> [] | Some p \<Rightarrow> result_of ?fetch p)"
    by (rule failover_result)
  have f: "(\<forall>p \<in> set ?ps. \<not> wins ?fetch p) \<longrightarrow> failover ?fetch ?ps = ([], ?ps)"
    using failover_all_fail [of ?ps ?fetch] by blast
  have o: "?ps = DEFAULT_CHINA_DATA_SOURCE a
                 # filter (\<lambda>p. p \<noteq> DEFAULT_CHINA_DATA_SOURCE a) [''akshare'', ''tushare'', ''baostock'']"
    by (simp add: china_providers_def CHINA_PROVIDER_ORDER_def)
  show ?thesis
    unfolding get_china_stock_history_def case_prod_unfold Let_def
    using c d r f o distinct_china_providers [of a]
    by (auto simp del: find.simps)
qed


theorem china_history_failover_witness:
  "get_china_stock_history degraded_sources ''000001'' ''2024-01-01'' ''2024-01-31''
     = (Inr [bar_0102], [''tushare'', ''akshare'', ''baostock''])
   \<and> get_china_stock_history (degraded_sources\<lparr>baostock_k_data := (\<lambda>symbol s e. Inr [])\<rparr>)
         ''000001'' ''2024-01-01'' ''2024-01-31''
     = (Inr [], [''tushare'', ''akshare'', ''baostock''])
   \<and> get_china_stock_history (degraded_sources\<lparr>TUSHARE_TOKEN := ''token''\<rparr>)
         ''000001'' ''2024-01-01'' ''2024-01-31''
     = (Inr [bar_0102], [''tushare''])"
proof -
  note defs = get_china_stock_history_def china_providers_def CHINA_PROVIDER_ORDER_def
      fetch_china_history_def akshare_stock_history_def tushare_stock_history_def
      baostock_stock_history_def degraded_sources_def bar_0102_def
  have e1: "get_china_stock_history degraded_sources ''000001'' ''2024-01-01'' ''2024-01-31''
     = (Inr [bar_0102], [''tushare'', ''akshare'', ''baostock''])"
    by (simp add: defs)
  have e2: "get_china_stock_history (degraded_sources\<lparr>baostock_k_data := (\<lambda>symbol s e. Inr [])\<rparr>)
         ''000001'' ''2024-01-01'' ''2024-01-31''
     = (Inr [], [''tushare'', ''akshare'', ''baostock''])"
    by (simp add: defs)
  have e3: "get_china_stock_history (degraded_sources\<lparr>TUSHARE_TOKEN := ''token''\<rparr>)
         ''000001'' ''2024-01-01'' ''2024-01-31''
     = (Inr [bar_0102], [''tushare''])"
    by (simp add: defs)
  show ?thesis
    using china_history_failover [where a = degraded_sources and symbol = "''000001''"
          and start_date = "''2024-01-01''" and end_date = "''2024-01-31''"]
    by (simp only: e1 e2 e3 simp_thms)
qed

section \<open>Verified properties: the normalizer\<close>

lemma rows_assign: "rows (assign name vs df) = map (\<lambda>(r, v). r(name := v)) (zip (rows df) vs)"
  by (simp add: assign_def)

lemma map_zip_replicate:
  "map (\<lambda>(r, v). f r v) (zip xs (replicate (length xs) c)) = map (\<lambda>r. f r c) xs"
  by (induction xs) simp_all

lemma map_zip_map:
  "map (\<lambda>(r, v). f r v) (zip xs (map g xs)) = map (\<lambda>r. f r (g r)) xs"
  by (induction xs) simp_all

lemma rows_ensure_column:
  "rows (ensure_column df col)
     = map (\<lambda>r. if col \<in> set (columns df) then r else r(col := Num (Fin 0))) (rows df)"
  by (simp add: ensure_column_def assign_scalar_def rows_assign map_zip_replicate)

lemma columns_ensure_column:
  "set (columns (ensure_column df col)) = insert col (set (columns df))"
  by (auto simp: ensure_column_def assign_scalar_def assign_def)

lemma rows_coerce_column:
  "rows (coerce_column P df col)
     = map (\<lambda>r. if col \<in> set (columns df)
                 then r(col := Num (fillna0 (to_numeric P (r col)))) else r) (rows df)"
  by (simp add: coerce_column_def rows_assign map_zip_map)

lemma columns_coerce_column: "columns (coerce_column P df col) = columns df"
  by (simp add: coerce_column_def assign_def)

lemma foldl_ensure:
  "rows (foldl ensure_column df cs)
     = map (\<lambda>r c. if c \<in> set cs \<and> c \<notin> set (columns df) then Num (Fin 0) else r c) (rows df)
   \<and> set (columns (foldl ensure_column df cs)) = set (columns df) \<union> set cs"
proof (induction cs arbitrary: df)
  case Nil
  then show ?case by simp
next
  case (Cons c cs)
  show ?case
    unfolding foldl_Cons
    by (simp only: Cons.IH rows_ensure_column columns_ensure_column) (auto simp: fun_eq_iff)
qed

lemma fillna0_idem: "fillna0 (fillna0 x) = fillna0 x"
  by (simp add: fillna0_def)

lemma foldl_coerce:
  "rows (foldl (coerce_column P) df cs)
     = map (\<lambda>r c. if c \<in> set cs \<and> c \<in> set (columns df)
                   then Num (fillna0 (to_numeric P (r c))) else r c) (rows df)
   \<and> columns (foldl (coerce_column P) df cs) = columns df"
proof (induction cs arbitrary: df)
  case Nil
  then show ?case by simp
next
  case (Cons c cs)
  show ?case
    unfolding foldl_Cons
    by (simp only: Cons.IH rows_coerce_column columns_coerce_column)
       (auto simp: fun_eq_iff fillna0_idem)
qed

text \<open>
  The frame the normalizer works on has one row for each raw record, in input order, and
  row \<open>i\<close> is made from record \<open>i\<close> alone, given the keys of all the records.
\<close>

lemma rows_prepared:
  "rows (prepared P records)
     = map (prepared_row P (columns (DataFrame records))) records"
proof -
  have "rows (DataFrame records)
          = map (\<lambda>d c. case map_of d c of None \<Rightarrow> Num NaN | Some v \<Rightarrow> v) records"
    by (simp add: DataFrame_def)
  then show ?thesis
    unfolding prepared_def
    by (simp only: foldl_coerce foldl_ensure) (auto simp: prepared_row_def fun_eq_iff Let_def)
qed

lemma drop_duplicates_last_subset: "set (drop_duplicates_last key xs) \<subseteq> set xs"
  by (induction xs) auto

lemma drop_duplicates_last_keys:
  "key ` set (drop_duplicates_last key xs) = key ` set xs"
  by (induction xs) auto

lemma collect_set_elems:
  "set (concat (map (\<lambda>x. case h x of None \<Rightarrow> [] | Some y \<Rightarrow> [y]) xs))
     = {y. \<exists>x \<in> set xs. h x = Some y}"
  by (auto split: option.splits)

lemma collect_set:
  "set (concat (map (\<lambda>x. case h x of None \<Rightarrow> [] | Some y \<Rightarrow> [y]) xs))
     = {y. \<exists>i < length xs. h (xs ! i) = Some y}"
  unfolding collect_set_elems by (auto simp: in_set_conv_nth) (metis nth_mem)

lemma collect_mem:
  "j < length xs \<Longrightarrow> h (xs ! j) = Some y \<Longrightarrow>
     y \<in> set (concat (map (\<lambda>x. case h x of None \<Rightarrow> [] | Some y \<Rightarrow> [y]) xs))"
  unfolding collect_set by blast

text \<open>
  Dropping duplicates with \<open>keep="last"\<close> from the elements picked out of a list: what
  stays was picked at a position after which no element with the same key is picked.
\<close>

lemma drop_duplicates_last_index:
  "r \<in> set (drop_duplicates_last key
              (concat (map (\<lambda>x. case h x of None \<Rightarrow> [] | Some y \<Rightarrow> [y]) xs))) \<Longrightarrow>
   \<exists>i < length xs. h (xs ! i) = Some r
      \<and> (\<forall>j y. i < j \<and> j < length xs \<and> h (xs ! j) = Some y \<longrightarrow> key y \<noteq> key r)"
proof (induction xs)
  case Nil
  then show ?case by simp
next
  case (Cons x xs)
  let ?rest = "concat (map (\<lambda>x. case h x of None \<Rightarrow> [] | Some y \<Rightarrow> [y]) xs)"
  show ?case
  proof (cases "r \<in> set (drop_duplicates_last key ?rest)")
    case True
    then obtain i where i: "i < length xs" "h (xs ! i) = Some r"
      and later: "\<forall>j y. i < j \<and> j < length xs \<and> h (xs ! j) = Some y \<longrightarrow> key y \<noteq> key r"
      using Cons.IH by blast
    have "\<forall>j y. Suc i < j \<and> j < length (x # xs) \<and> h ((x # xs) ! j) = Some y \<longrightarrow> key y \<noteq> key r"
    proof (intro allI impI)
      fix j y
      assume a: "Suc i < j \<and> j < length (x # xs) \<and> h ((x # xs) ! j) = Some y"
      then obtain j' where j': "j = Suc j'" by (cases j) auto
      with a later show "key y \<noteq> key r" by auto
    qed
    with i show ?thesis by (intro exI [of _ "Suc i"]) simp
  next
    case False
    with Cons.prems have hx: "h x = Some r" and fresh: "key r \<notin> key ` set ?rest"
      by (auto split: option.splits if_splits)
    have "\<forall>j y. 0 < j \<and> j < length (x # xs) \<and> h ((x # xs) ! j) = Some y \<longrightarrow> key y \<noteq> key r"
    proof (intro allI impI)
      fix j y
      assume a: "0 < j \<and> j < length (x # xs) \<and> h ((x # xs) ! j) = Some y"
      then obtain j' where j': "j = Suc j'" by (cases j) auto
      with a have "y \<in> set ?rest" using collect_mem [of j' xs h y] by simp
      with fresh show "key y \<noteq> key r" by (metis imageI)
    qed
    with hx show ?thesis by (intro exI [of _ 0]) simp
  qed
qed

lemma dated_rows_collect:
  "dated_rows P rs
     = concat (map (\<lambda>x. case map_option (\<lambda>t. x(''date'' := Str (strftime_ymd t)))
                               (to_datetime P (map (\<lambda>r. r ''date'') rs) (x ''date'')) of
                        None \<Rightarrow> [] | Some y \<Rightarrow> [y]) rs)"
  unfolding dated_rows_def
  by (rule arg_cong [where f = concat], rule map_cong) (auto split: option.splits)

lemma date_of_dated: "date_of (r(''date'' := Str s)) = s"
  by (simp add: date_of_def)

lemma sorted_distinct_strict:
  "sorted (map key xs) \<Longrightarrow> distinct (map key xs) \<Longrightarrow> sorted_wrt (<) (map key xs)"
  by (simp add: strict_sorted_iff)

lemma drop_duplicates_last_distinct: "distinct (map key (drop_duplicates_last key xs))"
proof (induction xs)
  case Nil
  then show ?case by simp
next
  case (Cons x xs)
  then show ?case
    using drop_duplicates_last_keys [of key xs] by auto
qed

text \<open>
  Claim C5. Whatever the raw records and their order, the dates of the normalized series
  are strictly ascending, hence unique. With \<open>raw\<close> the rows made from the records one by
  one, in input order, and \<open>parsed i\<close> the date read from record \<open>i\<close>: the dates that
  occur are exactly those of the records whose date could be parsed; and each row of the
  result is the row of a record \<open>i\<close> whose date was parsed, with the date rewritten as
  \<open>YYYY-MM-DD\<close>, such that no record after \<open>i\<close> in the input has the same date. So of the
  records sharing a date the last in input order is the one kept, and a record whose date
  cannot be parsed gives no row.
\<close>

theorem normalize_ohlcv_dates:
  "let out = rows (normalize_ohlcv P records);
       raw = map (prepared_row P (columns (DataFrame records))) records;
       parsed = (\<lambda>i. to_datetime P (map (\<lambda>r. r ''date'') raw) ((raw ! i) ''date''))
   in sorted_wrt (<) (map date_of out)
    \<and> distinct (map date_of out)
    \<and> (records \<noteq> [] \<longrightarrow>
         rows (prepared P records) = raw
         \<and> set (map date_of out)
             = {strftime_ymd t |t i. i < length records \<and> parsed i = Some t}
         \<and> (\<forall>r \<in> set out. \<exists>i t.
               i < length records \<and> parsed i = Some t
               \<and> r = (raw ! i)(''date'' := Str (strftime_ymd t))
               \<and> (\<forall>j t'. i < j \<and> j < length records \<and> parsed j = Some t'
                     \<longrightarrow> strftime_ymd t' \<noteq> strftime_ymd t)))
    \<and> (records = [] \<longrightarrow> out = [])"
proof (cases "records = []")
  case True
  then show ?thesis by (simp add: normalize_ohlcv_def empty_frame_def)
next
  case False
  let ?raw = "map (prepared_row P (columns (DataFrame records))) records"
  let ?col = "map (\<lambda>r. r ''date'') ?raw"
  let ?h = "\<lambda>x. map_option (\<lambda>t. x(''date'' := Str (strftime_ymd t)))
                   (to_datetime P ?col (x ''date''))"
  let ?dated = "concat (map (\<lambda>x. case ?h x of None \<Rightarrow> [] | Some y \<Rightarrow> [y]) ?raw)"
  let ?dd = "drop_duplicates_last date_of ?dated"
  have raw: "rows (prepared P records) = ?raw" by (rule rows_prepared)
  have out: "rows (normalize_ohlcv P records) = sort_key date_of ?dd"
    using False by (simp add: normalize_ohlcv_def Let_def raw dated_rows_collect)
  have d: "distinct (map date_of (sort_key date_of ?dd))"
    using drop_duplicates_last_distinct [of date_of ?dated] by (simp add: distinct_map)
  have s: "sorted (map date_of (sort_key date_of ?dd))"
    by (rule sorted_sort_key)
  have st: "sorted_wrt (<) (map date_of (sort_key date_of ?dd))"
    using s d by (rule sorted_distinct_strict)
  have k: "set (map date_of (sort_key date_of ?dd))
             = {strftime_ymd t |t i. i < length records
                  \<and> to_datetime P ?col ((?raw ! i) ''date'') = Some t}"
  proof -
    have "set (map date_of (sort_key date_of ?dd)) = date_of ` set ?dated"
      using drop_duplicates_last_keys [of date_of ?dated] by simp
    also have "\<dots> = date_of ` {y. \<exists>i < length ?raw. ?h (?raw ! i) = Some y}"
      by (simp only: collect_set)
    also have "\<dots> = {strftime_ymd t |t i. i < length records
                  \<and> to_datetime P ?col ((?raw ! i) ''date'') = Some t}"
    proof (intro set_eqI iffI)
      fix d assume "d \<in> date_of ` {y. \<exists>i < length ?raw. ?h (?raw ! i) = Some y}"
      then obtain y i where i: "i < length ?raw" "?h (?raw ! i) = Some y" and d: "d = date_of y"
        by blast
      from i(2) obtain t where t: "to_datetime P ?col ((?raw ! i) ''date'') = Some t"
        and y: "y = (?raw ! i)(''date'' := Str (strftime_ymd t))"
        by auto
      have "d = strftime_ymd t" by (simp add: d y date_of_dated)
      moreover have "i < length records" using i(1) by simp
      ultimately show "d \<in> {strftime_ymd t |t i. i < length records
                  \<and> to_datetime P ?col ((?raw ! i) ''date'') = Some t}"
        using t by blast
    next
      fix d assume "d \<in> {strftime_ymd t |t i. i < length records
                  \<and> to_datetime P ?col ((?raw ! i) ''date'') = Some t}"
      then obtain t i where i: "i < length records"
        and p: "to_datetime P ?col ((?raw ! i) ''date'') = Some t" and d: "d = strftime_ymd t"
        by blast
      from p have "?h (?raw ! i) = Some ((?raw ! i)(''date'' := Str (strftime_ymd t)))"
        by (simp only: option.map)
      moreover have "d = date_of ((?raw ! i)(''date'' := Str (strftime_ymd t)))"
        by (simp add: d date_of_dated)
      moreover have "i < length ?raw" using i by simp
      ultimately show "d \<in> date_of ` {y. \<exists>i < length ?raw. ?h (?raw ! i) = Some y}"
        by blast
    qed
    finally show ?thesis .
  qed
  have l: "\<forall>r \<in> set (sort_key date_of ?dd). \<exists>i t.
               i < length records \<and> to_datetime P ?col ((?raw ! i) ''date'') = Some t
               \<and> r = (?raw ! i)(''date'' := Str (strftime_ymd t))
               \<and> (\<forall>j t'. i < j \<and> j < length records
                       \<and> to_datetime P ?col ((?raw ! j) ''date'') = Some t'
                     \<longrightarrow> strftime_ymd t' \<noteq> strftime_ymd t)"
  proof
    fix r assume "r \<in> set (sort_key date_of ?dd)"
    then have "r \<in> set ?dd" by simp
    from drop_duplicates_last_index [OF this]
    obtain i where i: "i < length ?raw" "?h (?raw ! i) = Some r"
      and later: "\<forall>j y. i < j \<and> j < length ?raw \<and> ?h (?raw ! j) = Some y
                    \<longrightarrow> date_of y \<noteq> date_of r"
      by blast
    from i obtain t where t: "to_datetime P ?col ((?raw ! i) ''date'') = Some t"
      and r: "r = (?raw ! i)(''date'' := Str (strftime_ymd t))"
      by auto
    have "\<forall>j t'. i < j \<and> j < length records
                \<and> to_datetime P ?col ((?raw ! j) ''date'') = Some t'
              \<longrightarrow> strftime_ymd t' \<noteq> strftime_ymd t"
    proof (intro allI impI)
      fix j t'
      assume a: "i < j \<and> j < length records
                \<and> to_datetime P ?col ((?raw ! j) ''date'') = Some t'"
      then have j: "i < j" and jr: "j < length records"
        and p: "to_datetime P ?col ((?raw ! j) ''date'') = Some t'"
        by blast+
      have jl: "j < length ?raw" using jr by simp
      from p have "?h (?raw ! j) = Some ((?raw ! j)(''date'' := Str (strftime_ymd t')))"
        by (simp only: option.map)
      with j jl later have "date_of ((?raw ! j)(''date'' := Str (strftime_ymd t'))) \<noteq> date_of r"
        by blast
      then show "strftime_ymd t' \<noteq> strftime_ymd t" by (simp add: r date_of_dated)
    qed
    with i t r show "\<exists>i t.
               i < length records \<and> to_datetime P ?col ((?raw ! i) ''date'') = Some t
               \<and> r = (?raw ! i)(''date'' := Str (strftime_ymd t))
               \<and> (\<forall>j t'. i < j \<and> j < length records
                       \<and> to_datetime P ?col ((?raw ! j) ''date'') = Some t'
                     \<longrightarrow> strftime_ymd t' \<noteq> strftime_ymd t)"
      by (intro exI [of _ i] exI [of _ t]) simp
  qed
  show ?thesis
    unfolding Let_def out
    using False st d k l raw
    by simp
qed

theorem normalize_ohlcv_dates_witness:
  "mixed_records \<noteq> []
   \<and> map date_of (rows (normalize_ohlcv iso_pandas mixed_records))
       = [''2024-01-01'', ''2024-01-02'']
   \<and> map (\<lambda>r. r ''close'') (rows (normalize_ohlcv iso_pandas mixed_records))
       = [Num (Fin 9), Num (Fin 11)]
   \<and> rows (prepared iso_pandas mixed_records)
       = map (prepared_row iso_pandas (columns (DataFrame mixed_records))) mixed_records"
proof -
  have n: "mixed_records \<noteq> []"
    by (simp add: mixed_records_def)
  have d: "map date_of (rows (normalize_ohlcv iso_pandas mixed_records))
       = [''2024-01-01'', ''2024-01-02'']"
    by code_simp
  have c: "map (\<lambda>r. r ''close'') (rows (normalize_ohlcv iso_pandas mixed_records))
       = [Num (Fin 9), Num (Fin 11)]"
    by code_simp
  show ?thesis
    using normalize_ohlcv_dates [of iso_pandas mixed_records] n
    by (simp only: Let_def d c simp_thms)
qed

section \<open>Verified properties: the stock service\<close>







text \<open>
  A request made without \<open>force_refresh\<close> starts with the cache lookup. With the document
  store connected and no value in tier 1 the lookup raises, and so does the request, before
  any provider is asked.
\<close>

lemma history_raises_before_acquisition:
  "\<not> force_refresh \<Longrightarrow> mongo s = Some docs \<Longrightarrow>
   fst (get_L1 (cache_env S) s (make_key ''history'' [market, symbol, start_date, end_date]))
     = None \<Longrightarrow>
     get_stock_history S s symbol start_date end_date market force_refresh
       = (Inl NotImplementedError, s,
          map CacheCall (if redis s = None then []
             else [RedisGet (make_key ''history'' [market, symbol, start_date, end_date])]))"
  using get_L1_calls
    [of "cache_env S" s "make_key ''history'' [market, symbol, start_date, end_date]"]
  by (cases "get_L1 (cache_env S) s
               (make_key ''history'' [market, symbol, start_date, end_date])")
     (simp add: get_stock_history_def lookup_cached_def Let_def cache_get_def get_L2_connected)






section \<open>Verified properties: the indicators\<close>

text \<open>
  Claim C9. Each of the seven transforms (MA, EMA, MACD, RSI, Bollinger, KDJ, ATR), and
  their composition, applied to an empty frame returns that frame itself: no column is
  added and nothing is raised, whatever the parameters.
\<close>

theorem indicators_identity_on_empty:
  "df_empty df \<longrightarrow>
     add_ma df periods = Inr df \<and> add_ema df periods = Inr df
     \<and> add_macd df fast slow signal = Inr df \<and> add_rsi df periods = Inr df
     \<and> add_bollinger df period std_dev = Inr df \<and> add_kdj df period signal = Inr df
     \<and> add_atr df period = Inr df \<and> compute_all df = Inr df"
  by (simp add: add_ma_def add_ema_def add_macd_def add_rsi_def add_bollinger_def add_kdj_def
      add_atr_def compute_all_def bind_exn_def)

theorem indicators_identity_on_empty_witness:
  "df_empty empty_frame \<and> df_empty (closes_frame [])
   \<and> add_ma empty_frame (Some [5]) = Inr empty_frame
   \<and> add_rsi (closes_frame []) None = Inr (closes_frame [])
   \<and> add_bollinger (closes_frame []) 20 (Fin 2) = Inr (closes_frame [])
   \<and> compute_all empty_frame = Inr empty_frame
   \<and> compute_all (closes_frame []) = Inr (closes_frame [])"
proof -
  have e: "df_empty empty_frame" "df_empty (closes_frame [])"
    by (simp_all add: df_empty_def empty_frame_def closes_frame_def)
  show ?thesis
    using e indicators_identity_on_empty [of empty_frame "Some [5]"]
      indicators_identity_on_empty [of "closes_frame []" None _ _ _ 20 "Fin 2"]
    by simp
qed

lemma rint_numeral: "rint (numeral k) = numeral k" "rint 0 = 0"
  by (simp_all add: rint_def)

lemma rsi_value_zero_loss: "rsi_value (Fin g) (Fin 0) = Fin 0"
  by (simp add: rsi_value_def fl_eq_def fl_sub_def rint_numeral)

text \<open>
  Claim C2 says that a row whose rolling average of losses is exactly zero has RSI 100. The
  code divides the average gain by the average loss after replacing a zero loss by
  infinity, so the ratio is zero, not infinite, and the RSI of such a row is
  \<open>100 - 100 / (1 + 0) = 0\<close>. For the closes 10, 11 and window 6 the second row has
  average loss zero and RSI 0.
\<close>

theorem rsi_zero_loss_is_zero:
  "rsi_value (Fin gain) (Fin 0) = Fin 0
   \<and> rolling mean 6 (map (\<lambda>d. fl_neg (clip_upper (Fin 0) d)) (diff [Fin 10, Fin 11]))
       = Inr [NaN, Fin 0]
   \<and> (case add_rsi (closes_frame [10, 11]) (Some [6]) of
        Inl e \<Rightarrow> False
      | Inr df \<Rightarrow> map (\<lambda>r. r ''RSI6'') (rows df) = [Num NaN, Num (Fin 0)])"
proof -
  have "rolling mean 6 (map (\<lambda>d. fl_neg (clip_upper (Fin 0) d)) (diff [Fin 10, Fin 11]))
       = Inr [NaN, Fin 0]"
    by (simp add: diff_def shift1_def fl_sub_def rolling_def window_def observed_def mean_def
        fl_sum_def clip_upper_def upt_rec)
  moreover have "case add_rsi (closes_frame [10, 11]) (Some [6]) of
        Inl e \<Rightarrow> False
      | Inr df \<Rightarrow> map (\<lambda>r. r ''RSI6'') (rows df) = [Num NaN, Num (Fin 0)]"
    by (simp add: add_rsi_def periods_or_def bind_exn_def closes_frame_def numeric_column_def
        column_def diff_def shift1_def fl_sub_def rolling_def window_def observed_def mean_def
        fl_sum_def clip_lower_def clip_upper_def upt_rec rsi_value_def fl_eq_def rint_numeral
        str_int_def digit_def df_empty_def assign_floats_def assign_def)
  ultimately show ?thesis
    by (simp add: rsi_value_zero_loss)
qed

lemma rint_mono: "x \<le> y \<Longrightarrow> rint x \<le> rint y"
proof -
  assume xy: "x \<le> y"
  have f: "\<lfloor>x\<rfloor> \<le> \<lfloor>y\<rfloor>" using xy by (rule floor_mono)
  have lo: "\<lfloor>y\<rfloor> \<le> rint y" by (simp add: rint_def Let_def)
  have hi: "rint x \<le> \<lfloor>x\<rfloor> + 1" by (simp add: rint_def Let_def)
  show ?thesis
  proof (cases "\<lfloor>x\<rfloor> < \<lfloor>y\<rfloor>")
    case True
    then show ?thesis using lo hi by linarith
  next
    case False
    then have eq: "\<lfloor>x\<rfloor> = \<lfloor>y\<rfloor>" using f by simp
    then have "x - of_int \<lfloor>y\<rfloor> \<le> y - of_int \<lfloor>y\<rfloor>" using xy by simp
    then show ?thesis using eq by (auto simp: rint_def Let_def)
  qed
qed

lemma round4_mono: "x \<le> y \<Longrightarrow> fl_le (round4 (Fin x)) (round4 (Fin y))"
proof -
  assume "x \<le> y"
  then have "rint (x * 10000) \<le> rint (y * 10000)" by (intro rint_mono) simp
  then have "(of_int (rint (x * 10000)) :: real) / 10000 \<le> of_int (rint (y * 10000)) / 10000"
    by (simp add: divide_right_mono)
  then show ?thesis by (auto simp: fl_le_def)
qed

lemma fl_sqrt_std_like: "std_like (fl_sqrt v)"
  by (cases v) (simp_all add: std_like_def)

lemma sample_std_std_like: "std_like (sample_std w)"
  by (simp add: sample_std_def Let_def fl_sqrt_std_like) (simp add: std_like_def)

lemma band_order:
  assumes k: "fl_le (Fin 0) k" and s: "std_like s"
    and u: "round4 (fl_add m (fl_mul k s)) \<noteq> NaN"
    and l: "round4 (fl_sub m (fl_mul k s)) \<noteq> NaN"
    and mm: "round4 m \<noteq> NaN"
  shows "fl_le (round4 (fl_sub m (fl_mul k s))) (round4 m)
         \<and> fl_le (round4 m) (round4 (fl_add m (fl_mul k s)))"
proof -
  have w: "std_like (fl_mul k s)"
    using k s by (cases k; cases s) (auto simp: std_like_def fl_le_def inf_of_def)
  show ?thesis
  proof (cases "fl_mul k s")
    case (Fin y)
    then have y: "0 \<le> y" using w by (simp add: std_like_def)
    show ?thesis
    proof (cases m)
      case (Fin a)
      have "fl_le (round4 (Fin (a - y))) (round4 (Fin a))"
        using y by (intro round4_mono) simp
      moreover have "fl_le (round4 (Fin a)) (round4 (Fin (a + y)))"
        using y by (intro round4_mono) simp
      ultimately show ?thesis using Fin \<open>fl_mul k s = Fin y\<close> by (simp add: fl_sub_def)
    qed (use Fin mm in \<open>simp_all add: fl_sub_def fl_le_def\<close>)
  next
    case PInf
    then show ?thesis using u l mm by (cases m) (simp_all add: fl_sub_def fl_le_def)
  next
    case NInf
    then show ?thesis using w by (simp add: std_like_def)
  next
    case NaN
    then show ?thesis using u by (cases m) simp_all
  qed
qed


lemma numeric_column_length:
  "numeric_column df name = Inr xs \<Longrightarrow> length xs = length (rows df)"
  by (auto simp: numeric_column_def column_def bind_exn_def split: if_splits)

lemma three_assigns_nth:
  assumes "length ms = length (rows df)" "length us = length (rows df)"
    "length ls = length (rows df)" "i < length (rows df)"
  shows "rows (assign_floats c ls (assign_floats b us (assign_floats a ms df))) ! i
           = (rows df ! i)(a := Num (ms ! i), b := Num (us ! i), c := Num (ls ! i))"
  using assms by (simp add: assign_floats_def rows_assign)

lemma three_assigns_length:
  assumes "length ms = length (rows df)" "length us = length (rows df)"
    "length ls = length (rows df)"
  shows "length (rows (assign_floats c ls (assign_floats b us (assign_floats a ms df))))
           = length (rows df)"
  using assms by (simp add: assign_floats_def rows_assign)

lemma add_bollinger_Inr:
  assumes "\<not> df_empty df" "add_bollinger df period k = Inr out"
  shows "\<exists>close. numeric_column df ''close'' = Inr close \<and> 1 \<le> period"
  using assms
  by (auto simp: add_bollinger_def bind_exn_def rolling_def split: sum.splits if_splits)

lemma add_bollinger_rows:
  assumes ne: "\<not> df_empty df" and c: "numeric_column df ''close'' = Inr close"
    and p: "1 \<le> period"
  shows "\<exists>out. add_bollinger df period k = Inr out
           \<and> {''BOLL_LOWER'', ''BOLL_MID'', ''BOLL_UPPER''} \<subseteq> set (columns out)
           \<and> length (rows out) = length close
           \<and> (\<forall>i < length close.
                 (rows out ! i) ''BOLL_MID''
                   = Num (round4 (mean (observed (window (nat period) i close))))
               \<and> (rows out ! i) ''BOLL_UPPER''
                   = Num (round4 (fl_add (mean (observed (window (nat period) i close)))
                            (fl_mul k (sample_std (observed (window (nat period) i close))))))
               \<and> (rows out ! i) ''BOLL_LOWER''
                   = Num (round4 (fl_sub (mean (observed (window (nat period) i close)))
                            (fl_mul k (sample_std (observed (window (nat period) i close)))))))"
proof -
  let ?n = "length close"
  let ?mid = "map (\<lambda>i. mean (observed (window (nat period) i close))) [0..<?n]"
  let ?std = "map (\<lambda>i. sample_std (observed (window (nat period) i close))) [0..<?n]"
  let ?ms = "map round4 ?mid"
  let ?us = "map (\<lambda>(m, s). round4 (fl_add m (fl_mul k s))) (zip ?mid ?std)"
  let ?ls = "map (\<lambda>(m, s). round4 (fl_sub m (fl_mul k s))) (zip ?mid ?std)"
  let ?out = "assign_floats ''BOLL_LOWER'' ?ls
                (assign_floats ''BOLL_UPPER'' ?us (assign_floats ''BOLL_MID'' ?ms df))"
  have n: "?n = length (rows df)" using c by (rule numeric_column_length)
  have r1: "rolling mean period close = Inr ?mid" using p by (simp add: rolling_def)
  have r2: "rolling sample_std period close = Inr ?std" using p by (simp add: rolling_def)
  have o: "add_bollinger df period k = Inr ?out"
    using ne c r1 r2 by (simp add: add_bollinger_def bind_exn_def)
  have l: "length (rows ?out) = ?n"
    using n by (simp add: three_assigns_length)
  have v: "(rows ?out ! i) ''BOLL_MID''
                   = Num (round4 (mean (observed (window (nat period) i close))))
               \<and> (rows ?out ! i) ''BOLL_UPPER''
                   = Num (round4 (fl_add (mean (observed (window (nat period) i close)))
                            (fl_mul k (sample_std (observed (window (nat period) i close))))))
               \<and> (rows ?out ! i) ''BOLL_LOWER''
                   = Num (round4 (fl_sub (mean (observed (window (nat period) i close)))
                            (fl_mul k (sample_std (observed (window (nat period) i close))))))"
    if "i < ?n" for i
  proof -
    have "rows ?out ! i = (rows df ! i)(''BOLL_MID'' := Num (?ms ! i),
            ''BOLL_UPPER'' := Num (?us ! i), ''BOLL_LOWER'' := Num (?ls ! i))"
      using that n by (intro three_assigns_nth) simp_all
    then show ?thesis using that by simp
  qed
  have cs: "{''BOLL_LOWER'', ''BOLL_MID'', ''BOLL_UPPER''} \<subseteq> set (columns ?out)"
    by (simp add: assign_floats_def assign_def)
  show ?thesis using o cs l v by blast
qed

text \<open>
  Claim C8, as amended. For a multiplier that is not negative, every row of the Bollinger
  output whose lower, middle and upper band are all defined (not not-a-number) has
  \<open>lower \<le> mid \<le> upper\<close>: the bands are the rolling mean minus and plus the multiplier
  times a rolling standard deviation that is never negative, and rounding to four
  decimals keeps the order.
\<close>

theorem bollinger_band_order:
  "fl_le (Fin 0) std_dev \<and> add_bollinger df period std_dev = Inr out
   \<and> {''BOLL_LOWER'', ''BOLL_MID'', ''BOLL_UPPER''} \<subseteq> set (columns out)
   \<and> r \<in> set (rows out)
   \<and> r ''BOLL_LOWER'' = Num lower \<and> r ''BOLL_MID'' = Num mid \<and> r ''BOLL_UPPER'' = Num upper
   \<and> lower \<noteq> NaN \<and> mid \<noteq> NaN \<and> upper \<noteq> NaN
   \<longrightarrow> fl_le lower mid \<and> fl_le mid upper"
proof (intro impI, elim conjE)
  assume k: "fl_le (Fin 0) std_dev" and o: "add_bollinger df period std_dev = Inr out"
    and cols: "{''BOLL_LOWER'', ''BOLL_MID'', ''BOLL_UPPER''} \<subseteq> set (columns out)"
    and r: "r \<in> set (rows out)"
    and cl: "r ''BOLL_LOWER'' = Num lower" and cm: "r ''BOLL_MID'' = Num mid"
    and cu: "r ''BOLL_UPPER'' = Num upper"
    and dl: "lower \<noteq> NaN" and dm: "mid \<noteq> NaN" and du: "upper \<noteq> NaN"
  have ne: "\<not> df_empty df"
  proof
    assume e: "df_empty df"
    then have "out = df" using o by (simp add: add_bollinger_def)
    then show False using e cols r by (auto simp: df_empty_def)
  qed
  obtain close where c: "numeric_column df ''close'' = Inr close" and p: "1 \<le> period"
    using add_bollinger_Inr [OF ne o] by blast
  obtain out' where o': "add_bollinger df period std_dev = Inr out'"
    and l: "length (rows out') = length close"
    and v: "\<forall>i < length close.
                 (rows out' ! i) ''BOLL_MID''
                   = Num (round4 (mean (observed (window (nat period) i close))))
               \<and> (rows out' ! i) ''BOLL_UPPER''
                   = Num (round4 (fl_add (mean (observed (window (nat period) i close)))
                            (fl_mul std_dev (sample_std (observed (window (nat period) i close))))))
               \<and> (rows out' ! i) ''BOLL_LOWER''
                   = Num (round4 (fl_sub (mean (observed (window (nat period) i close)))
                            (fl_mul std_dev (sample_std (observed (window (nat period) i close))))))"
    using add_bollinger_rows [OF ne c p, of std_dev] by blast
  have same: "out' = out" using o o' by simp
  obtain i where i: "i < length close" and ri: "r = rows out ! i"
    using r l same by (metis in_set_conv_nth)
  let ?w = "observed (window (nat period) i close)"
  have m: "mid = round4 (mean ?w)"
    and u: "upper = round4 (fl_add (mean ?w) (fl_mul std_dev (sample_std ?w)))"
    and lo: "lower = round4 (fl_sub (mean ?w) (fl_mul std_dev (sample_std ?w)))"
    using v i ri same cl cm cu by auto
  show "fl_le lower mid \<and> fl_le mid upper"
    unfolding m u lo
    using k sample_std_std_like [of ?w] dl dm du
    unfolding m u lo
    by (intro band_order) simp_all
qed

lemma rising3_facts:
  "\<not> df_empty (closes_frame [1, 2, 3])"
  "numeric_column (closes_frame [1, 2, 3]) ''close'' = Inr [Fin 1, Fin 2, Fin 3]"
  "observed (window 20 2 [Fin 1, Fin 2, Fin 3]) = [Fin 1, Fin 2, Fin 3]"
  "mean [Fin 1, Fin 2, Fin 3] = Fin 2"
  "sample_std [Fin 1, Fin 2, Fin 3] = Fin 1"
  by (simp_all add: df_empty_def closes_frame_def numeric_column_def column_def bind_exn_def
      observed_def window_def mean_def sample_std_def fl_sum_def fl_sub_def Let_def)

text \<open>
  Claim C8 as it was stated puts no condition on the multiplier, which is a parameter of
  the transform. With multiplier \<open>-1\<close> and closes 1, 2, 3 the third row has lower band 3,
  middle band 2 and upper band 1.
\<close>

theorem bollinger_negative_multiplier_counterexample:
  "case add_bollinger (closes_frame [1, 2, 3]) 20 (Fin (- 1)) of
     Inl e \<Rightarrow> False
   | Inr out \<Rightarrow>
       {''BOLL_LOWER'', ''BOLL_MID'', ''BOLL_UPPER''} \<subseteq> set (columns out)
       \<and> (rows out ! 2) ''BOLL_LOWER'' = Num (Fin 3)
       \<and> (rows out ! 2) ''BOLL_MID'' = Num (Fin 2)
       \<and> (rows out ! 2) ''BOLL_UPPER'' = Num (Fin 1)
       \<and> \<not> fl_le (Fin 2) (Fin 1)"
proof -
  obtain out where o: "add_bollinger (closes_frame [1, 2, 3]) 20 (Fin (- 1)) = Inr out"
    and c: "{''BOLL_LOWER'', ''BOLL_MID'', ''BOLL_UPPER''} \<subseteq> set (columns out)"
    and v: "\<forall>i < length [Fin 1, Fin 2, Fin 3 :: fl].
                 (rows out ! i) ''BOLL_MID''
                   = Num (round4 (mean (observed (window (nat 20) i [Fin 1, Fin 2, Fin 3]))))
               \<and> (rows out ! i) ''BOLL_UPPER''
                   = Num (round4 (fl_add (mean (observed (window (nat 20) i [Fin 1, Fin 2, Fin 3])))
                            (fl_mul (Fin (- 1)) (sample_std (observed (window (nat 20) i [Fin 1, Fin 2, Fin 3]))))))
               \<and> (rows out ! i) ''BOLL_LOWER''
                   = Num (round4 (fl_sub (mean (observed (window (nat 20) i [Fin 1, Fin 2, Fin 3])))
                            (fl_mul (Fin (- 1)) (sample_std (observed (window (nat 20) i [Fin 1, Fin 2, Fin 3]))))))"
    using add_bollinger_rows [OF rising3_facts(1) rising3_facts(2), of 20 "Fin (- 1)"] by auto
  have "(rows out ! 2) ''BOLL_LOWER'' = Num (Fin 3) \<and> (rows out ! 2) ''BOLL_MID'' = Num (Fin 2)
       \<and> (rows out ! 2) ''BOLL_UPPER'' = Num (Fin 1)"
    using v [rule_format, of 2] by (simp add: rising3_facts fl_sub_def rint_numeral)
  then show ?thesis using o c by (simp add: fl_le_def)
qed

theorem bollinger_band_order_witness:
  "fl_le (Fin 0) (Fin 2)
   \<and> (case add_bollinger (closes_frame [1, 2, 3]) 20 (Fin 2) of
        Inl e \<Rightarrow> False
      | Inr out \<Rightarrow>
          {''BOLL_LOWER'', ''BOLL_MID'', ''BOLL_UPPER''} \<subseteq> set (columns out)
          \<and> rows out ! 2 \<in> set (rows out)
          \<and> (rows out ! 2) ''BOLL_LOWER'' = Num (Fin 0)
          \<and> (rows out ! 2) ''BOLL_MID'' = Num (Fin 2)
          \<and> (rows out ! 2) ''BOLL_UPPER'' = Num (Fin 4)
          \<and> fl_le (Fin 0) (Fin 2) \<and> fl_le (Fin 2) (Fin 4))"
proof -
  obtain out where o: "add_bollinger (closes_frame [1, 2, 3]) 20 (Fin 2) = Inr out"
    and c: "{''BOLL_LOWER'', ''BOLL_MID'', ''BOLL_UPPER''} \<subseteq> set (columns out)"
    and l: "length (rows out) = length [Fin 1, Fin 2, Fin 3 :: fl]"
    and v: "\<forall>i < length [Fin 1, Fin 2, Fin 3 :: fl].
                 (rows out ! i) ''BOLL_MID''
                   = Num (round4 (mean (observed (window (nat 20) i [Fin 1, Fin 2, Fin 3]))))
               \<and> (rows out ! i) ''BOLL_UPPER''
                   = Num (round4 (fl_add (mean (observed (window (nat 20) i [Fin 1, Fin 2, Fin 3])))
                            (fl_mul (Fin 2) (sample_std (observed (window (nat 20) i [Fin 1, Fin 2, Fin 3]))))))
               \<and> (rows out ! i) ''BOLL_LOWER''
                   = Num (round4 (fl_sub (mean (observed (window (nat 20) i [Fin 1, Fin 2, Fin 3])))
                            (fl_mul (Fin 2) (sample_std (observed (window (nat 20) i [Fin 1, Fin 2, Fin 3]))))))"
    using add_bollinger_rows [OF rising3_facts(1) rising3_facts(2), of 20 "Fin 2"] by auto
  have cells: "(rows out ! 2) ''BOLL_LOWER'' = Num (Fin 0) \<and> (rows out ! 2) ''BOLL_MID'' = Num (Fin 2)
       \<and> (rows out ! 2) ''BOLL_UPPER'' = Num (Fin 4)"
    using v [rule_format, of 2] by (simp add: rising3_facts fl_sub_def rint_numeral)
  have k: "fl_le (Fin 0) (Fin 2)" by (simp add: fl_le_def)
  have m: "rows out ! 2 \<in> set (rows out)" using l by simp
  have "fl_le (Fin 0) (Fin 2) \<and> fl_le (Fin 2) (Fin 4)"
    using bollinger_band_order [of "Fin 2" "closes_frame [1, 2, 3]" 20 out "rows out ! 2"
        "Fin 0" "Fin 2" "Fin 4"] k o c m cells
    by simp
  then show ?thesis using o c m cells by simp
qed

end
